theory Spec2Isabelle
  imports Main "HOL-Library.Word"
begin

section \<open>JavaScript values\<close>

text \<open>
  The program is \<^verbatim>\<open>netlify/functions/validate-code.js\<close>. A JavaScript string is a
  sequence of 16-bit code units, so \<open>endsWith\<close>, \<open>trim\<close> and the regular expressions
  of the source are modelled on lists of 16-bit words. \<open>str\<close> embeds an ASCII literal.
\<close>

type_synonym jschar = "16 word"
type_synonym jsstr = "jschar list"

definition str :: "string \<Rightarrow> jsstr" where
  "str s = map of_char s"

text \<open>
  A value produced by \<open>JSON.parse\<close>. Numbers are the integers (epoch milliseconds are
  integers; JSON numbers with a fraction or beyond the exactly representable range of a
  double are outside the model). A property that is missing reads as \<open>undefined\<close>,
  which is \<open>None\<close> in a \<open>json option\<close>.
\<close>

datatype json =
    JNull
  | JBool bool
  | JNum int
  | JStr jsstr
  | JArr "json list"
  | JObj "(jsstr \<times> json) list"

datatype error = Error jsstr | TypeError | SyntaxError

text \<open>
  \<open>v.k\<close> for one of the property names the source reads (\<open>contactId\<close>, \<open>code\<close>,
  \<open>startTime\<close>, \<open>appointments\<close>): reading a property of \<open>null\<close> throws a TypeError,
  an object yields its own property, every other value has no such property.
\<close>

fun getProp :: "json \<Rightarrow> jsstr \<Rightarrow> error + json option" where
  "getProp JNull k = Inl TypeError"
| "getProp (JObj fs) k = Inr (map_of fs k)"
| "getProp (JBool b) k = Inr None"
| "getProp (JNum n) k = Inr None"
| "getProp (JStr s) k = Inr None"
| "getProp (JArr xs) k = Inr None"

fun truthy :: "json option \<Rightarrow> bool" where
  "truthy None = False"
| "truthy (Some JNull) = False"
| "truthy (Some (JBool b)) = b"
| "truthy (Some (JNum n)) = (n \<noteq> 0)"
| "truthy (Some (JStr s)) = (s \<noteq> [])"
| "truthy (Some (JArr xs)) = True"
| "truthy (Some (JObj fs)) = True"

definition js_or :: "json option \<Rightarrow> json option \<Rightarrow> json option" where
  "js_or a b = (if truthy a then a else b)"

subsection \<open>Strings\<close>

definition isAlnum :: "jschar \<Rightarrow> bool" where
  "isAlnum c = ((0x41 \<le> c \<and> c \<le> 0x5A) \<or> (0x61 \<le> c \<and> c \<le> 0x7A) \<or> (0x30 \<le> c \<and> c \<le> 0x39))"

definition isDigit :: "jschar \<Rightarrow> bool" where
  "isDigit c = (0x30 \<le> c \<and> c \<le> 0x39)"

definition digitVal :: "jschar \<Rightarrow> int" where
  "digitVal c = uint c - 48"

text \<open>White space and line terminators, the code units \<open>String.prototype.trim\<close> strips.\<close>

definition isWhiteSpace :: "jschar \<Rightarrow> bool" where
  "isWhiteSpace c =
     (c = 0x9 \<or> c = 0xA \<or> c = 0xB \<or> c = 0xC \<or> c = 0xD \<or> c = 0x20 \<or> c = 0xA0 \<or>
      c = 0x1680 \<or> (0x2000 \<le> c \<and> c \<le> 0x200A) \<or> c = 0x2028 \<or> c = 0x2029 \<or>
      c = 0x202F \<or> c = 0x205F \<or> c = 0x3000 \<or> c = 0xFEFF)"

definition trim :: "jsstr \<Rightarrow> jsstr" where
  "trim s = rev (dropWhile isWhiteSpace (rev (dropWhile isWhiteSpace s)))"

text \<open>\<open>x.trim()\<close> on a value: only a string has the method.\<close>

fun String_trim :: "json option \<Rightarrow> error + jsstr" where
  "String_trim (Some (JStr s)) = Inr (trim s)"
| "String_trim v = Inl TypeError"

text \<open>\<open>s.endsWith(t)\<close>: the last \<open>length t\<close> code units of \<open>s\<close> are \<open>t\<close>.\<close>

definition endsWith :: "jsstr \<Rightarrow> jsstr \<Rightarrow> bool" where
  "endsWith s t = (length t \<le> length s \<and> drop (length s - length t) s = t)"

text \<open>\<open>/^[A-Za-z0-9]{4}$/.test(code)\<close>\<close>

fun code_regex_test :: "jsstr \<Rightarrow> bool" where
  "code_regex_test [a, b, c, d] = (isAlnum a \<and> isAlnum b \<and> isAlnum c \<and> isAlnum d)"
| "code_regex_test cs = False"

text \<open>Decimal \<open>Number.prototype.toString\<close> of an integer (below \<open>10^21\<close> in size).\<close>

fun digits :: "nat \<Rightarrow> jsstr" where
  "digits n = (if n < 10 then [of_nat (48 + n)] else digits (n div 10) @ [of_nat (48 + n mod 10)])"

declare digits.simps [simp del]

definition Number_toString :: "int \<Rightarrow> jsstr" where
  "Number_toString n = (if n < 0 then 0x2D # digits (nat (- n)) else digits (nat n))"

text \<open>A number that may be \<open>NaN\<close> is an \<open>int option\<close>, \<open>None\<close> being \<open>NaN\<close>.\<close>

fun NaN_toString :: "int option \<Rightarrow> jsstr" where
  "NaN_toString None = str ''NaN''"
| "NaN_toString (Some n) = Number_toString n"

text \<open>\<open>s.padStart(n, c)\<close> with a one-character filler.\<close>

definition padStart :: "jsstr \<Rightarrow> nat \<Rightarrow> jschar \<Rightarrow> jsstr" where
  "padStart s n c = replicate (n - length s) c @ s"

section \<open>Time zone offset\<close>

text \<open>
  \<open>parseInt\<close> on a string of decimal digits. The regular expression of
  \<open>parseTzOffsetMs\<close> captures nothing else, so the other cases of the built-in (white
  space, sign, radix prefix, \<open>NaN\<close>) do not arise.
\<close>

definition parseInt :: "jsstr \<Rightarrow> int" where
  "parseInt s = foldl (\<lambda>a d. 10 * a + digitVal d) 0 (takeWhile isDigit s)"

text \<open>\<open>s.match(/^([+-])(\d{2}):(\d{2})$/)\<close>: the three captured groups, or no match.\<close>

fun tz_match :: "jsstr \<Rightarrow> (jsstr \<times> jsstr \<times> jsstr) option" where
  "tz_match [sg, h1, h2, c, m1, m2] =
     (if (sg = 0x2B \<or> sg = 0x2D) \<and> isDigit h1 \<and> isDigit h2 \<and> c = 0x3A \<and> isDigit m1 \<and> isDigit m2
      then Some ([sg], [h1, h2], [m1, m2]) else None)"
| "tz_match s = None"

text \<open>\<open>tzStr || "+00:00"\<close>: an unset variable and the empty string are falsy.\<close>

fun or_default :: "jsstr option \<Rightarrow> jsstr \<Rightarrow> jsstr" where
  "or_default None d = d"
| "or_default (Some s) d = (if s = [] then d else s)"

definition parseTzOffsetMs :: "jsstr option \<Rightarrow> int" where
  "parseTzOffsetMs tzStr =
     (case tz_match (or_default tzStr (str ''+00:00'')) of
        None \<Rightarrow> 0
      | Some (m1, m2, m3) \<Rightarrow>
          (let sign = (if m1 = str ''+'' then 1 else - 1)
           in sign * (parseInt m2 * 60 + parseInt m3) * 60 * 1000))"

section \<open>Dates\<close>

text \<open>
  A Date holds a time value: epoch milliseconds within \<open>\<plusminus>8.64e15\<close>, or \<open>NaN\<close>
  (\<open>None\<close>, an invalid Date).
\<close>

definition TimeClip :: "int \<Rightarrow> int option" where
  "TimeClip t = (if \<bar>t\<bar> \<le> 8640000000000000 then Some t else None)"

definition getUTCHours :: "int \<Rightarrow> int" where
  "getUTCHours t = (t div 3600000) mod 24"

definition getUTCMinutes :: "int \<Rightarrow> int" where
  "getUTCMinutes t = (t div 60000) mod 60"

text \<open>\<open>d.setUTCHours(0, 0, 0, 0)\<close>: the start of the UTC day of \<open>d\<close>.\<close>

definition setUTCHours0 :: "int option \<Rightarrow> int option" where
  "setUTCHours0 d = (case d of None \<Rightarrow> None | Some t \<Rightarrow> TimeClip (t - t mod 86400000))"

definition isLeap :: "int \<Rightarrow> bool" where
  "isLeap y = (if y mod 100 = 0 then y mod 400 = 0 else y mod 4 = 0)"

definition daysInMonth :: "int \<Rightarrow> int \<Rightarrow> int" where
  "daysInMonth y m =
     (if m = 2 then (if isLeap y then 29 else 28)
      else if m = 4 \<or> m = 6 \<or> m = 9 \<or> m = 11 then 30 else 31)"

text \<open>Days from 1970-01-01 to the given day of the proleptic Gregorian calendar.\<close>

definition daysFromCivil :: "int \<Rightarrow> int \<Rightarrow> int \<Rightarrow> int" where
  "daysFromCivil y m d =
     (let y' = (if m \<le> 2 then y - 1 else y);
          era = y' div 400;
          yoe = y' - era * 400;
          mp = (m + 9) mod 12;
          doy = (153 * mp + 2) div 5 + d - 1;
          doe = yoe * 365 + yoe div 4 - yoe div 100 + doy
      in era * 146097 + doe - 719468)"

definition dec :: "jsstr \<Rightarrow> int option" where
  "dec s = (if s \<noteq> [] \<and> list_all isDigit s then Some (parseInt s) else None)"

definition substring :: "jsstr \<Rightarrow> nat \<Rightarrow> nat \<Rightarrow> jsstr" where
  "substring s i j = take (j - i) (drop i s)"

text \<open>
  The two complete UTC forms of the ECMAScript date-time string format,
  \<open>YYYY-MM-DDTHH:mm:ssZ\<close> and \<open>YYYY-MM-DDTHH:mm:ss.sssZ\<close>, with every field in range.
\<close>

definition iso_utc :: "jsstr \<Rightarrow> int option" where
  "iso_utc s =
     (let n = length s in
      if (n = 20 \<or> n = 24) \<and> s ! 4 = 0x2D \<and> s ! 7 = 0x2D \<and> s ! 10 = 0x54 \<and> s ! 13 = 0x3A \<and>
         s ! 16 = 0x3A \<and> s ! (n - 1) = 0x5A \<and> (n = 20 \<or> s ! 19 = 0x2E)
      then
        (case (dec (substring s 0 4), dec (substring s 5 7), dec (substring s 8 10),
               dec (substring s 11 13), dec (substring s 14 16), dec (substring s 17 19),
               (if n = 20 then Some 0 else dec (substring s 20 23))) of
           (Some y, Some mo, Some d, Some h, Some mi, Some sec, Some ms) \<Rightarrow>
             if 1 \<le> mo \<and> mo \<le> 12 \<and> 1 \<le> d \<and> d \<le> daysInMonth y mo \<and> h \<le> 23 \<and> mi \<le> 59 \<and> sec \<le> 59
             then Some (daysFromCivil y mo d * 86400000 + h * 3600000 + mi * 60000 + sec * 1000 + ms)
             else None
         | _ \<Rightarrow> None)
      else None)"

section \<open>The world outside the function\<close>

record request =
  locationId :: jsstr
  startDate :: jsstr
  endDate :: jsstr
  Authorization :: jsstr

record http_response =
  status :: nat
  responseText :: jsstr

text \<open>\<open>response.ok\<close>\<close>

definition ok :: "http_response \<Rightarrow> bool" where
  "ok r = (200 \<le> status r \<and> status r \<le> 299)"

text \<open>
  What the function reads from its surroundings: the three environment variables
  (\<open>None\<close> when unset), the successive readings of \<open>Date.now()\<close>, the answer of the
  appointments service to a request (\<open>None\<close> when \<open>fetch\<close> itself rejects), and three
  built-ins of the engine that are taken as given: \<open>JSON.parse\<close> (\<open>None\<close> for a
  SyntaxError), the engine's own date parser for strings outside the forms of
  \<open>iso_utc\<close>, and the string an array or object converts to.
\<close>

record world =
  GHL_API_KEY :: "jsstr option"
  GHL_LOCATION_ID :: "jsstr option"
  APPOINTMENT_TZ :: "jsstr option"
  clock :: "nat \<Rightarrow> int"
  upstream :: "request \<Rightarrow> http_response option"
  JSON_parse :: "jsstr \<Rightarrow> json option"
  Date_parse_legacy :: "jsstr \<Rightarrow> int option"
  ToPrimitive :: "json \<Rightarrow> jsstr"

text \<open>
  What the function does to its surroundings: it reads the clock (\<open>ticks\<close> counts the
  readings), sends requests, and writes errors to the console.
\<close>

record state =
  ticks :: nat
  requests :: "request list"
  console :: "error list"

definition Date_now :: "world \<Rightarrow> state \<Rightarrow> int \<times> state" where
  "Date_now w st = (clock w (ticks st), st\<lparr>ticks := Suc (ticks st)\<rparr>)"

text \<open>\<open>Date.parse\<close>: the empty string is no date; the ISO forms; otherwise the engine decides.\<close>

definition Date_parse :: "world \<Rightarrow> jsstr \<Rightarrow> int option" where
  "Date_parse w s =
     (if s = [] then None
      else case iso_utc s of Some t \<Rightarrow> Some t | None \<Rightarrow> Date_parse_legacy w s)"

text \<open>\<open>new Date(v).getTime()\<close>\<close>

fun Date_getTime :: "world \<Rightarrow> json option \<Rightarrow> int option" where
  "Date_getTime w None = None"
| "Date_getTime w (Some JNull) = Some 0"
| "Date_getTime w (Some (JBool b)) = Some (if b then 1 else 0)"
| "Date_getTime w (Some (JNum n)) = TimeClip n"
| "Date_getTime w (Some (JStr s)) = Date_parse w s"
| "Date_getTime w (Some (JArr xs)) = Date_parse w (ToPrimitive w (JArr xs))"
| "Date_getTime w (Some (JObj fs)) = Date_parse w (ToPrimitive w (JObj fs))"

section \<open>The program\<close>

definition WINDOW_BEFORE_MS :: int where
  "WINDOW_BEFORE_MS = 2 * 60 * 60 * 1000"

definition WINDOW_AFTER_MS :: int where
  "WINDOW_AFTER_MS = 4 * 60 * 60 * 1000"

text \<open>\<open>authHeaders()\<close>: the value of the Authorization header, or the configuration error.\<close>

definition authHeaders :: "world \<Rightarrow> error + jsstr" where
  "authHeaders w =
     (let apiKey = or_default (GHL_API_KEY w) []
      in if apiKey = [] then Inl (Error (str ''GHL_API_KEY environment variable is not set.''))
         else Inr (str ''Bearer '' @ apiKey))"

text \<open>
  \<open>fetchTodaysAppointments()\<close>. The result is \<open>data.appointments ?? []\<close>, whatever value
  that is; every \<open>throw\<close> and every rejected promise is an \<open>Inl\<close>.
\<close>

definition fetchTodaysAppointments :: "world \<Rightarrow> state \<Rightarrow> (error + json) \<times> state" where
  "fetchTodaysAppointments w st =
     (let locationId = or_default (GHL_LOCATION_ID w) []
      in if locationId = []
         then (Inl (Error (str ''GHL_LOCATION_ID environment variable is not set.'')), st)
         else
           (let tzOffsetMs = parseTzOffsetMs (APPOINTMENT_TZ w);
                (nowUtcMs, st1) = Date_now w st;
                localNow = setUTCHours0 (TimeClip (nowUtcMs + tzOffsetMs));
                startMs = map_option (\<lambda>t. t - tzOffsetMs) localNow;
                endMs = map_option (\<lambda>t. t + 24 * 60 * 60 * 1000 - 1) startMs
            in case authHeaders w of
                 Inl e \<Rightarrow> (Inl e, st1)
               | Inr auth \<Rightarrow>
                   (let req = \<lparr>locationId = locationId, startDate = NaN_toString startMs,
                                endDate = NaN_toString endMs, Authorization = auth\<rparr>;
                        st2 = st1\<lparr>requests := requests st1 @ [req]\<rparr>
                    in case upstream w req of
                         None \<Rightarrow> (Inl TypeError, st2)
                       | Some response \<Rightarrow>
                           if \<not> ok response
                           then (Inl (Error (str ''GHL appointments API returned '' @
                                   Number_toString (int (status response)) @ str '': '' @
                                   responseText response)), st2)
                           else (case JSON_parse w (responseText response) of
                                   None \<Rightarrow> (Inl SyntaxError, st2)
                                 | Some data \<Rightarrow>
                                     (case getProp data (str ''appointments'') of
                                        Inl e \<Rightarrow> (Inl e, st2)
                                      | Inr None \<Rightarrow> (Inr (JArr []), st2)
                                      | Inr (Some JNull) \<Rightarrow> (Inr (JArr []), st2)
                                      | Inr (Some v) \<Rightarrow> (Inr v, st2))))))"

definition isWithinWindow :: "int \<Rightarrow> int \<Rightarrow> bool" where
  "isWithinWindow appointmentStartMs nowMs =
     (nowMs \<ge> appointmentStartMs - WINDOW_BEFORE_MS \<and>
      nowMs \<le> appointmentStartMs + WINDOW_AFTER_MS)"

text \<open>
  \<open>formatLocalTime\<close>. On an invalid Date the getters return \<open>NaN\<close>: the comparison
  \<open>h >= 12\<close> is false, \<open>h % 12 || 12\<close> is 12 and the minutes print as \<open>NaN\<close>.
\<close>

definition formatLocalTime :: "int \<Rightarrow> int \<Rightarrow> jsstr" where
  "formatLocalTime epochMs tzOffsetMs =
     (let localDate = TimeClip (epochMs + tzOffsetMs);
          h = map_option getUTCHours localDate;
          m = padStart (NaN_toString (map_option getUTCMinutes localDate)) 2 0x30;
          period = (case h of None \<Rightarrow> str ''AM'' | Some h' \<Rightarrow> if h' \<ge> 12 then str ''PM'' else str ''AM'');
          display = (case h of None \<Rightarrow> 12 | Some h' \<Rightarrow> if h' mod 12 = 0 then 12 else h' mod 12)
      in Number_toString display @ str '':'' @ m @ str '' '' @ period)"

datatype verdict = Valid | Invalid jsstr

text \<open>
  The callback of \<open>appointments.filter\<close>:
  \<open>typeof appt.contactId === "string" && appt.contactId.endsWith(code)\<close>.
\<close>

definition matchesCode :: "jsstr \<Rightarrow> json \<Rightarrow> error + bool" where
  "matchesCode code appt =
     (case getProp appt (str ''contactId'') of
        Inl e \<Rightarrow> Inl e
      | Inr (Some (JStr contactId)) \<Rightarrow> Inr (endsWith contactId code)
      | Inr v \<Rightarrow> Inr False)"

text \<open>\<open>xs.filter(p)\<close> with a callback that may throw: the first throw ends the loop.\<close>

fun filter_throwing :: "('a \<Rightarrow> error + bool) \<Rightarrow> 'a list \<Rightarrow> error + 'a list" where
  "filter_throwing p [] = Inr []"
| "filter_throwing p (x # xs) =
     (case p x of
        Inl e \<Rightarrow> Inl e
      | Inr b \<Rightarrow>
          (case filter_throwing p xs of
             Inl e \<Rightarrow> Inl e
           | Inr ys \<Rightarrow> Inr (if b then x # ys else ys)))"

text \<open>\<open>v.filter(p)\<close> on a value: only an array has the method.\<close>

fun Array_filter :: "(json \<Rightarrow> error + bool) \<Rightarrow> json \<Rightarrow> error + json list" where
  "Array_filter p (JArr xs) = filter_throwing p xs"
| "Array_filter p v = Inl TypeError"

text \<open>
  The start time of the matched appointment:
  \<open>typeof appt.startTime === "number" ? appt.startTime : new Date(appt.startTime).getTime()\<close>,
  \<open>None\<close> when the result is \<open>NaN\<close>.
\<close>

definition startMs_of :: "world \<Rightarrow> json \<Rightarrow> error + int option" where
  "startMs_of w appt =
     (case getProp appt (str ''startTime'') of
        Inl e \<Rightarrow> Inl e
      | Inr (Some (JNum n)) \<Rightarrow> Inr (Some n)
      | Inr v \<Rightarrow> Inr (Date_getTime w v))"

definition validateCode :: "world \<Rightarrow> jsstr \<Rightarrow> state \<Rightarrow> (error + verdict) \<times> state" where
  "validateCode w code st =
     (if \<not> code_regex_test code
      then (Inr (Invalid (str ''Invalid code format. Expected 4 alphanumeric characters.'')), st)
      else
        (case fetchTodaysAppointments w st of
           (Inl e, st1) \<Rightarrow> (Inl e, st1)
         | (Inr appointments, st1) \<Rightarrow>
             (case Array_filter (matchesCode code) appointments of
                Inl e \<Rightarrow> (Inl e, st1)
              | Inr matches \<Rightarrow>
                  if length matches = 0
                  then (Inr (Invalid (str ''No appointment found for today with this code.'')), st1)
                  else if length matches > 1
                  then (Inr (Invalid (str ''Ambiguous code '' @ [0x2014] @
                          str '' multiple appointments match. Please contact us.'')), st1)
                  else
                    (let appt = matches ! 0
                     in case startMs_of w appt of
                          Inl e \<Rightarrow> (Inl e, st1)
                        | Inr None \<Rightarrow>
                            (Inr (Invalid (str ''Could not read appointment start time.'')), st1)
                        | Inr (Some startMs) \<Rightarrow>
                            (let (nowMs, st2) = Date_now w st1
                             in if isWithinWindow startMs nowMs then (Inr Valid, st2)
                                else
                                  (let tzOffsetMs = parseTzOffsetMs (APPOINTMENT_TZ w);
                                       apptTimeStr = formatLocalTime startMs tzOffsetMs
                                   in (Inr (Invalid (str ''Appointment is at '' @ apptTimeStr @
                                         str '' but you are outside the access '' @
                                         str ''window (2 hours before '' @ [0x2192] @
                                         str '' 4 hours after appointment time).'')), st2)))))))"

subsection \<open>The handler\<close>

record event =
  httpMethod :: jsstr
  body :: "jsstr option"

text \<open>
  The response: \<open>responseBody\<close> is the value given to \<open>JSON.stringify\<close>, \<open>None\<close> where
  the body is the empty string.
\<close>

record response =
  statusCode :: nat
  headers :: "(jsstr \<times> jsstr) list"
  responseBody :: "verdict option"

definition CORS_HEADERS :: "(jsstr \<times> jsstr) list" where
  "CORS_HEADERS =
     [(str ''Access-Control-Allow-Origin'', str ''*''),
      (str ''Access-Control-Allow-Methods'', str ''POST, OPTIONS''),
      (str ''Access-Control-Allow-Headers'', str ''Content-Type''),
      (str ''Content-Type'', str ''application/json'')]"

text \<open>
  The first \<open>try\<close> block of the handler. Its first line is
  \<open>body = JSON.parse(event.body || "{}")\<close>, where \<open>JSON.parse("{}")\<close> is the empty
  object and \<open>None\<close> stands for a SyntaxError; its second line is
  \<open>code = (body.contactId || body.code || "").trim()\<close>.
\<close>

definition parseBody :: "world \<Rightarrow> event \<Rightarrow> json option" where
  "parseBody w ev =
     (let text = or_default (body ev) (str ''{}'')
      in if text = str ''{}'' then Some (JObj []) else JSON_parse w text)"

definition requestCode :: "world \<Rightarrow> event \<Rightarrow> error + jsstr" where
  "requestCode w ev =
     (case parseBody w ev of
        None \<Rightarrow> Inl SyntaxError
      | Some b \<Rightarrow>
          (case getProp b (str ''contactId'') of
             Inl e \<Rightarrow> Inl e
           | Inr c \<Rightarrow>
               if truthy c then String_trim c
               else (case getProp b (str ''code'') of
                       Inl e \<Rightarrow> Inl e
                     | Inr k \<Rightarrow> String_trim (js_or k (Some (JStr []))))))"

definition handler :: "world \<Rightarrow> event \<Rightarrow> state \<Rightarrow> response \<times> state" where
  "handler w ev st =
     (if httpMethod ev = str ''OPTIONS''
      then (\<lparr>statusCode = 204, headers = CORS_HEADERS, responseBody = None\<rparr>, st)
      else if httpMethod ev \<noteq> str ''POST''
      then (\<lparr>statusCode = 405, headers = CORS_HEADERS,
             responseBody = Some (Invalid (str ''Method not allowed.''))\<rparr>, st)
      else
        (case requestCode w ev of
           Inl e \<Rightarrow>
             (\<lparr>statusCode = 400, headers = CORS_HEADERS,
               responseBody = Some (Invalid (str ''Invalid JSON body.''))\<rparr>, st)
         | Inr code \<Rightarrow>
             if code = []
             then (\<lparr>statusCode = 400, headers = CORS_HEADERS,
                    responseBody = Some (Invalid (str ''contactId is required.''))\<rparr>, st)
             else
               (case validateCode w code st of
                  (Inr result, st1) \<Rightarrow>
                    (\<lparr>statusCode = 200, headers = CORS_HEADERS, responseBody = Some result\<rparr>, st1)
                | (Inl err, st1) \<Rightarrow>
                    (\<lparr>statusCode = 500, headers = CORS_HEADERS,
                      responseBody = Some (Invalid (str ''Internal server error. Please try again.''))\<rparr>,
                     st1\<lparr>console := console st1 @ [err]\<rparr>))))"

section \<open>The specification's notions\<close>

text \<open>
  The contact identifier of an appointment record is a string that ends with the code.
  A record without the field, or with a field that is not a string, has no such suffix.
\<close>

definition contactIdEndsWith :: "jsstr \<Rightarrow> json \<Rightarrow> bool" where
  "contactIdEndsWith code appt =
     (case appt of
        JObj fs \<Rightarrow> (case map_of fs (str ''contactId'') of
                      Some (JStr contactId) \<Rightarrow> endsWith contactId code
                    | _ \<Rightarrow> False)
      | _ \<Rightarrow> False)"

text \<open>
  An offset string of the form \<open>\<plusminus>HH:MM\<close> and the milliseconds it stands for:
  sign times (HH times 60 plus MM) times 60 times 1000.
\<close>

definition well_formed_offset :: "jsstr \<Rightarrow> bool" where
  "well_formed_offset s =
     (length s = 6 \<and> (s ! 0 = 0x2B \<or> s ! 0 = 0x2D) \<and> isDigit (s ! 1) \<and> isDigit (s ! 2) \<and>
      s ! 3 = 0x3A \<and> isDigit (s ! 4) \<and> isDigit (s ! 5))"

definition offset_value :: "jsstr \<Rightarrow> int" where
  "offset_value s =
     (if s ! 0 = 0x2B then 1 else - 1) *
     ((10 * digitVal (s ! 1) + digitVal (s ! 2)) * 60 + (10 * digitVal (s ! 4) + digitVal (s ! 5))) *
     60 * 1000"


section \<open>A concrete world\<close>

text \<open>
  The end-to-end example of the specification: both configuration values set, the offset
  string \<open>tz\<close>, a clock that reads \<open>now\<close>, and a service that answers every request
  with the status \<open>answer\<close> and a body that parses to \<open>data\<close>.
\<close>

definition example_world :: "jsstr option \<Rightarrow> int \<Rightarrow> nat \<Rightarrow> json \<Rightarrow> json \<Rightarrow> world" where
  "example_world tz now answer data reqjson =
     \<lparr>GHL_API_KEY = Some (str ''secret''),
      GHL_LOCATION_ID = Some (str ''S6NWWugmodHfqBSf9GEw''),
      APPOINTMENT_TZ = tz,
      clock = (\<lambda>n. now),
      upstream = (\<lambda>req. Some \<lparr>status = answer, responseText = str ''upstream body''\<rparr>),
      JSON_parse = (\<lambda>s. if s = str ''upstream body'' then Some data
                          else if s = str ''request body'' then Some reqjson else None),
      Date_parse_legacy = (\<lambda>s. None),
      ToPrimitive = (\<lambda>v. str ''[object Object]'')\<rparr>"

definition example_appointment :: "json \<Rightarrow> json" where
  "example_appointment startTime =
     JObj [(str ''contactId'', JStr (str ''hsAZzqlAcxscd0xlWZ0e'')), (str ''startTime'', startTime)]"

definition example_appointments :: "json \<Rightarrow> json" where
  "example_appointments startTime =
     JObj [(str ''appointments'', JArr [example_appointment startTime])]"

definition st0 :: state where
  "st0 = \<lparr>ticks = 0, requests = [], console = []\<rparr>"

text \<open>A POST request; its body is the text that the example world parses to \<open>reqjson\<close>.\<close>

definition example_event :: event where
  "example_event = \<lparr>httpMethod = str ''POST'', body = Some (str ''request body'')\<rparr>"

section \<open>Auxiliary facts\<close>

lemma code_regex_test_iff:
  "code_regex_test code \<longleftrightarrow> length code = 4 \<and> list_all isAlnum code"
  by (induction code rule: code_regex_test.induct) simp_all

lemma endsWith_iff: "endsWith s t \<longleftrightarrow> (\<exists>p. s = p @ t)"
proof
  assume "endsWith s t"
  then have "s = take (length s - length t) s @ t"
    by (metis append_take_drop_id endsWith_def)
  then show "\<exists>p. s = p @ t" ..
next
  assume "\<exists>p. s = p @ t"
  then show "endsWith s t" by (auto simp: endsWith_def)
qed

lemma matchesCode_nonnull:
  "a \<noteq> JNull \<Longrightarrow> matchesCode code a = Inr (contactIdEndsWith code a)"
  by (cases a) (simp_all add: matchesCode_def contactIdEndsWith_def split: option.splits json.splits)

lemma filter_throwing_matchesCode:
  "\<forall>a\<in>set xs. a \<noteq> JNull \<Longrightarrow>
   filter_throwing (matchesCode code) xs = Inr (filter (contactIdEndsWith code) xs)"
  by (induction xs) (simp_all add: matchesCode_nonnull)

lemma fetch_ok:
  assumes "GHL_LOCATION_ID w = Some loc" "loc \<noteq> []" "GHL_API_KEY w = Some key" "key \<noteq> []"
    and "\<forall>req. upstream w req = Some r" "ok r"
    and "JSON_parse w (responseText r) = Some data"
    and "getProp data (str ''appointments'') = Inr v"
  shows "fst (fetchTodaysAppointments w st) =
           Inr (case v of None \<Rightarrow> JArr [] | Some JNull \<Rightarrow> JArr [] | Some x \<Rightarrow> x)"
  using assms
  by (simp add: fetchTodaysAppointments_def authHeaders_def Date_now_def Let_def
      split: option.splits json.splits)

lemma validateCode_matched:
  assumes "code_regex_test code"
    and "fetchTodaysAppointments w st = (Inr (JArr appts), st1)"
    and "\<forall>a\<in>set appts. a \<noteq> JNull"
    and "filter (contactIdEndsWith code) appts = [appt]"
    and "startMs_of w appt = Inr (Some s)"
  shows "validateCode w code st =
     (if isWithinWindow s (clock w (ticks st1)) then Inr Valid
      else Inr (Invalid (str ''Appointment is at '' @ formatLocalTime s (parseTzOffsetMs (APPOINTMENT_TZ w)) @
                 str '' but you are outside the access '' @
                 str ''window (2 hours before '' @ [0x2192] @
                 str '' 4 hours after appointment time).'')),
      st1\<lparr>ticks := Suc (ticks st1)\<rparr>)"
  using assms
  by (simp add: validateCode_def filter_throwing_matchesCode Date_now_def Let_def)

lemma window_text:
  "str '' but you are outside the access '' @ str ''window (2 hours before '' =
   str '' but you are outside the access window (2 hours before ''"
  by (simp add: str_def)

subsection \<open>The example evaluated\<close>

lemma iso_utc_15: "iso_utc (str ''2024-01-01T15:00:00Z'') = Some 1704121200000"
  by (simp add: iso_utc_def str_def dec_def substring_def parseInt_def isDigit_def digitVal_def
      daysInMonth_def daysFromCivil_def isLeap_def Let_def)

lemma example_fetch:
  "fst (fetchTodaysAppointments (example_world tz now 200 (example_appointments x) rq) st) =
     Inr (JArr [example_appointment x])"
proof -
  have "fst (fetchTodaysAppointments (example_world tz now 200 (example_appointments x) rq) st) =
     Inr (case Some (JArr [example_appointment x]) of
            None \<Rightarrow> JArr [] | Some JNull \<Rightarrow> JArr [] | Some y \<Rightarrow> y)"
  proof (rule fetch_ok)
    show "GHL_LOCATION_ID (example_world tz now 200 (example_appointments x) rq) =
            Some (str ''S6NWWugmodHfqBSf9GEw'')"
      by (simp add: example_world_def)
    show "str ''S6NWWugmodHfqBSf9GEw'' \<noteq> []" by (simp add: str_def)
    show "GHL_API_KEY (example_world tz now 200 (example_appointments x) rq) = Some (str ''secret'')"
      by (simp add: example_world_def)
    show "str ''secret'' \<noteq> []" by (simp add: str_def)
    show "\<forall>req. upstream (example_world tz now 200 (example_appointments x) rq) req =
            Some \<lparr>status = 200, responseText = str ''upstream body''\<rparr>"
      by (simp add: example_world_def)
    show "ok \<lparr>status = 200, responseText = str ''upstream body''\<rparr>" by (simp add: ok_def)
    show "JSON_parse (example_world tz now 200 (example_appointments x) rq)
            (responseText \<lparr>status = 200, responseText = str ''upstream body''\<rparr>) =
            Some (example_appointments x)"
      by (simp add: example_world_def)
    show "getProp (example_appointments x) (str ''appointments'') =
            Inr (Some (JArr [example_appointment x]))"
      by (simp add: example_appointments_def)
  qed
  then show ?thesis by simp
qed

lemma example_fetch_pair:
  "fetchTodaysAppointments (example_world tz now 200 (example_appointments x) rq) st =
     (Inr (JArr [example_appointment x]),
      snd (fetchTodaysAppointments (example_world tz now 200 (example_appointments x) rq) st))"
  using example_fetch [of tz now x rq st] by (simp add: prod_eq_iff)

lemma example_code: "length (str ''WZ0e'') = 4 \<and> (\<forall>c\<in>set (str ''WZ0e''). isAlnum c)"
  by (simp add: str_def isAlnum_def)

lemma example_match: "contactIdEndsWith (str ''WZ0e'') (example_appointment x)"
  by (simp add: contactIdEndsWith_def example_appointment_def endsWith_def str_def)

lemma example_nonnull: "\<forall>a\<in>set [example_appointment x]. a \<noteq> JNull"
  by (simp add: example_appointment_def)

lemma startTime_key: "str ''startTime'' \<noteq> str ''contactId''"
  by (simp add: str_def)

lemma example_start:
  "startMs_of w (example_appointment (JStr (str ''2024-01-01T15:00:00Z''))) = Inr (Some 1704121200000)"
proof -
  have "str ''2024-01-01T15:00:00Z'' \<noteq> []" by (simp add: str_def)
  then show ?thesis
    by (simp add: startMs_of_def example_appointment_def Date_parse_def iso_utc_15 startTime_key)
qed

lemma contactIdEndsWith_iff:
  "contactIdEndsWith code a \<longleftrightarrow>
     (\<exists>fs cid p. a = JObj fs \<and> map_of fs (str ''contactId'') = Some (JStr cid) \<and> cid = p @ code)"
  by (cases a) (auto simp: contactIdEndsWith_def endsWith_iff split: option.splits json.splits)

lemma validateCode_lookup:
  assumes "code_regex_test code"
    and "fetchTodaysAppointments w st = (Inr (JArr appts), st1)"
    and "\<forall>a\<in>set appts. a \<noteq> JNull"
  shows "validateCode w code st =
     (case filter (contactIdEndsWith code) appts of
        [] \<Rightarrow> (Inr (Invalid (str ''No appointment found for today with this code.'')), st1)
      | [appt] \<Rightarrow>
          (case startMs_of w appt of
             Inl e \<Rightarrow> (Inl e, st1)
           | Inr None \<Rightarrow> (Inr (Invalid (str ''Could not read appointment start time.'')), st1)
           | Inr (Some s) \<Rightarrow>
               (if isWithinWindow s (clock w (ticks st1)) then Inr Valid
                else Inr (Invalid (str ''Appointment is at '' @
                       formatLocalTime s (parseTzOffsetMs (APPOINTMENT_TZ w)) @
                       str '' but you are outside the access window (2 hours before '' @ [0x2192] @
                       str '' 4 hours after appointment time).'')),
                st1\<lparr>ticks := Suc (ticks st1)\<rparr>))
      | appt # appt' # others \<Rightarrow>
          (Inr (Invalid (str ''Ambiguous code '' @ [0x2014] @
             str '' multiple appointments match. Please contact us.'')), st1))"
  using assms window_text
  by (simp add: validateCode_def filter_throwing_matchesCode Date_now_def Let_def
      del: append_assoc add: append_assoc[symmetric]
      split: list.splits sum.splits option.splits)

lemma startMs_of_nonnull: "a \<noteq> JNull \<Longrightarrow> \<exists>r. startMs_of w a = Inr r"
  by (cases a) (auto simp: startMs_of_def split: option.splits json.splits)

lemma example_world_fetch:
  assumes "getProp data (str ''appointments'') = Inr v"
  shows "fst (fetchTodaysAppointments (example_world tz now 200 data rq) st) =
     Inr (case v of None \<Rightarrow> JArr [] | Some JNull \<Rightarrow> JArr [] | Some y \<Rightarrow> y)"
proof (rule fetch_ok)
  show "GHL_LOCATION_ID (example_world tz now 200 data rq) = Some (str ''S6NWWugmodHfqBSf9GEw'')"
    by (simp add: example_world_def)
  show "str ''S6NWWugmodHfqBSf9GEw'' \<noteq> []" by (simp add: str_def)
  show "GHL_API_KEY (example_world tz now 200 data rq) = Some (str ''secret'')"
    by (simp add: example_world_def)
  show "str ''secret'' \<noteq> []" by (simp add: str_def)
  show "\<forall>req. upstream (example_world tz now 200 data rq) req =
          Some \<lparr>status = 200, responseText = str ''upstream body''\<rparr>"
    by (simp add: example_world_def)
  show "ok \<lparr>status = 200, responseText = str ''upstream body''\<rparr>" by (simp add: ok_def)
  show "JSON_parse (example_world tz now 200 data rq)
          (responseText \<lparr>status = 200, responseText = str ''upstream body''\<rparr>) = Some data"
    by (simp add: example_world_def)
  show "getProp data (str ''appointments'') = Inr v" by (rule assms)
qed

lemma pair_of_fst: "fst p = a \<Longrightarrow> p = (a, snd p)"
  by (simp add: prod_eq_iff)

lemma tz_utc: "parseTzOffsetMs (Some (str ''+00:00'')) = 0"
  by (simp add: parseTzOffsetMs_def str_def isDigit_def parseInt_def digitVal_def)

lemma format_epoch: "formatLocalTime 0 0 = str ''12:00 AM''"
  by (simp add: formatLocalTime_def TimeClip_def getUTCHours_def getUTCMinutes_def
      Number_toString_def digits.simps padStart_def str_def Let_def)

lemma startMs_null: "startMs_of w (example_appointment JNull) = Inr (Some 0)"
  by (simp add: startMs_of_def example_appointment_def startTime_key)

section \<open>The access window\<close>



section \<open>The format guard\<close>

text \<open>
  C2. A code that is not exactly four characters, each a letter or a digit, is answered
  with the format reason whatever the world is, and the state is returned as it was: no
  request has been sent and the clock has not been read.
\<close>

theorem validateCode_format_guard:
  assumes "\<not> (length code = 4 \<and> (\<forall>c\<in>set code. isAlnum c))"
  shows "validateCode w code st =
           (Inr (Invalid (str ''Invalid code format. Expected 4 alphanumeric characters.'')), st)
       \<and> requests (snd (validateCode w code st)) = requests st"
proof -
  have "\<not> code_regex_test code"
    using assms by (simp add: code_regex_test_iff list_all_iff)
  then show ?thesis by (simp add: validateCode_def)
qed

theorem validateCode_format_guard_witness:
  "\<not> (length (str ''WZ-e'') = 4 \<and> (\<forall>c\<in>set (str ''WZ-e''). isAlnum c))
   \<and> validateCode (example_world None 0 200 JNull JNull) (str ''WZ-e'') st0 =
       (Inr (Invalid (str ''Invalid code format. Expected 4 alphanumeric characters.'')), st0)"
proof -
  have h: "\<not> (length (str ''WZ-e'') = 4 \<and> (\<forall>c\<in>set (str ''WZ-e''). isAlnum c))"
    by (simp add: str_def isAlnum_def)
  from validateCode_format_guard[OF h, of "example_world None 0 200 JNull JNull" st0] h
  show ?thesis by simp
qed

section \<open>The match step\<close>

text \<open>
  C3. Let the code be well formed and let the lookup return a list of appointment records.
  The match step selects exactly the records whose contact identifier is a string with the
  code as its suffix, code unit by code unit (nothing is normalised). With no record
  selected the verdict is the no-appointment reason; with two or more it is the ambiguous
  reason, whatever their start times are, and in both cases the clock is not read; with
  exactly one the verdict is the one of the start-time and window checks on that record.
  So \<open>valid: true\<close> needs exactly one match.
\<close>

theorem match_step:
  assumes "length code = 4" and "\<forall>c\<in>set code. isAlnum c"
    and "fetchTodaysAppointments w st = (Inr (JArr appts), st1)"
    and "\<forall>a\<in>set appts. a \<noteq> JNull"
  shows "Array_filter (matchesCode code) (JArr appts) = Inr (filter (contactIdEndsWith code) appts)
       \<and> (\<forall>a. contactIdEndsWith code a \<longleftrightarrow>
             (\<exists>fs cid p. a = JObj fs \<and> map_of fs (str ''contactId'') = Some (JStr cid) \<and> cid = p @ code))
       \<and> (filter (contactIdEndsWith code) appts = [] \<longrightarrow>
             validateCode w code st =
               (Inr (Invalid (str ''No appointment found for today with this code.'')), st1))
       \<and> (2 \<le> length (filter (contactIdEndsWith code) appts) \<longrightarrow>
             validateCode w code st =
               (Inr (Invalid (str ''Ambiguous code '' @ [0x2014] @
                  str '' multiple appointments match. Please contact us.'')), st1))
       \<and> (\<forall>a. filter (contactIdEndsWith code) appts = [a] \<longrightarrow>
             fst (validateCode w code st) =
               (case startMs_of w a of
                  Inl e \<Rightarrow> Inl e
                | Inr None \<Rightarrow> Inr (Invalid (str ''Could not read appointment start time.''))
                | Inr (Some s) \<Rightarrow>
                    if s - 2 * 60 * 60 * 1000 \<le> clock w (ticks st1) \<and>
                       clock w (ticks st1) \<le> s + 4 * 60 * 60 * 1000
                    then Inr Valid
                    else Inr (Invalid (str ''Appointment is at '' @
                       formatLocalTime s (parseTzOffsetMs (APPOINTMENT_TZ w)) @
                       str '' but you are outside the access window (2 hours before '' @ [0x2192] @
                       str '' 4 hours after appointment time).''))))
       \<and> (fst (validateCode w code st) = Inr Valid \<longrightarrow>
             length (filter (contactIdEndsWith code) appts) = 1)"
proof -
  have fmt: "code_regex_test code"
    using assms(1,2) by (simp add: code_regex_test_iff list_all_iff)
  note v = validateCode_lookup[OF fmt assms(3,4)]
  have c1: "Array_filter (matchesCode code) (JArr appts) = Inr (filter (contactIdEndsWith code) appts)"
    using assms(4) by (simp add: filter_throwing_matchesCode)
  have c3: "filter (contactIdEndsWith code) appts = [] \<longrightarrow>
             validateCode w code st =
               (Inr (Invalid (str ''No appointment found for today with this code.'')), st1)"
    by (simp add: v)
  have c4: "2 \<le> length (filter (contactIdEndsWith code) appts) \<longrightarrow>
             validateCode w code st =
               (Inr (Invalid (str ''Ambiguous code '' @ [0x2014] @
                  str '' multiple appointments match. Please contact us.'')), st1)"
    unfolding v by (simp split: list.splits)
  have c5: "\<forall>a. filter (contactIdEndsWith code) appts = [a] \<longrightarrow>
             fst (validateCode w code st) =
               (case startMs_of w a of
                  Inl e \<Rightarrow> Inl e
                | Inr None \<Rightarrow> Inr (Invalid (str ''Could not read appointment start time.''))
                | Inr (Some s) \<Rightarrow>
                    if s - 2 * 60 * 60 * 1000 \<le> clock w (ticks st1) \<and>
                       clock w (ticks st1) \<le> s + 4 * 60 * 60 * 1000
                    then Inr Valid
                    else Inr (Invalid (str ''Appointment is at '' @
                       formatLocalTime s (parseTzOffsetMs (APPOINTMENT_TZ w)) @
                       str '' but you are outside the access window (2 hours before '' @ [0x2192] @
                       str '' 4 hours after appointment time).'')))"
    unfolding v
    by (simp add: isWithinWindow_def WINDOW_BEFORE_MS_def WINDOW_AFTER_MS_def
        split: sum.splits option.splits)
  have c6: "fst (validateCode w code st) = Inr Valid \<longrightarrow>
             length (filter (contactIdEndsWith code) appts) = 1"
    unfolding v
    by (simp split: list.splits sum.splits option.splits)
  from c1 contactIdEndsWith_iff c3 c4 c5 c6 show ?thesis by blast
qed

theorem match_step_witness:
  "length (str ''WZ0e'') = 4 \<and> list_all isAlnum (str ''WZ0e'')
   \<and> fst (fetchTodaysAppointments
        (example_world None 1704124800000 200
           (JObj [(str ''appointments'',
                   JArr [example_appointment (JNum 1704121200000), example_appointment JNull])]) JNull)
        st0)
      = Inr (JArr [example_appointment (JNum 1704121200000), example_appointment JNull])
   \<and> list_all (\<lambda>a. a \<noteq> JNull) [example_appointment (JNum 1704121200000), example_appointment JNull]
   \<and> fst (validateCode
        (example_world None 1704124800000 200
           (JObj [(str ''appointments'',
                   JArr [example_appointment (JNum 1704121200000), example_appointment JNull])]) JNull)
        (str ''WZ0e'') st0)
      = Inr (Invalid (str ''Ambiguous code '' @ [0x2014] @
                  str '' multiple appointments match. Please contact us.''))"
proof -
  let ?A = "example_appointment (JNum 1704121200000)"
  let ?B = "example_appointment JNull"
  let ?W = "example_world None 1704124800000 200 (JObj [(str ''appointments'', JArr [?A, ?B])]) JNull"
  have h1: "length (str ''WZ0e'') = 4" and h2: "\<forall>c\<in>set (str ''WZ0e''). isAlnum c"
    using example_code by simp_all
  have f: "fst (fetchTodaysAppointments ?W st0) = Inr (JArr [?A, ?B])"
    using example_world_fetch[of "JObj [(str ''appointments'', JArr [?A, ?B])]" "Some (JArr [?A, ?B])"
        None 1704124800000 JNull st0]
    by simp
  have h3: "fetchTodaysAppointments ?W st0 = (Inr (JArr [?A, ?B]), snd (fetchTodaysAppointments ?W st0))"
    using f by (rule pair_of_fst)
  have h4: "\<forall>a\<in>set [?A, ?B]. a \<noteq> JNull" by (simp add: example_appointment_def)
  have m: "2 \<le> length (filter (contactIdEndsWith (str ''WZ0e'')) [?A, ?B])"
    by (simp add: example_match)
  have "fst (validateCode ?W (str ''WZ0e'') st0) =
          Inr (Invalid (str ''Ambiguous code '' @ [0x2014] @
                  str '' multiple appointments match. Please contact us.''))"
    using match_step[OF h1 h2 h3 h4] m by simp
  with h1 h2 f h4 show ?thesis by (simp add: list_all_iff)
qed

lemma filter_throwing_null:
  "JNull \<in> set xs \<Longrightarrow> filter_throwing (matchesCode code) xs = Inl TypeError"
proof (induction xs)
  case Nil
  then show ?case by simp
next
  case (Cons x xs)
  show ?case
  proof (cases "x = JNull")
    case True
    then show ?thesis by (simp add: matchesCode_def)
  next
    case False
    with Cons.prems have "JNull \<in> set xs" by simp
    then have "filter_throwing (matchesCode code) xs = Inl TypeError" by (rule Cons.IH)
    with False show ?thesis by (simp add: matchesCode_nonnull)
  qed
qed

text \<open>
  C9. For every list of entries and every code, the match step fails, with a TypeError, if
  and only if some entry is \<open>null\<close>; otherwise it returns the entries whose \<open>contactId\<close>
  is a string ending with the code. An entry whose \<open>contactId\<close> is absent or is not a
  string is never selected and never makes the step fail.
\<close>

theorem match_step_total:
  "Array_filter (matchesCode code) (JArr appts) =
     (if JNull \<in> set appts then Inl TypeError
      else Inr (filter (contactIdEndsWith code) appts))
   \<and> (\<forall>a. (\<forall>s. getProp a (str ''contactId'') \<noteq> Inr (Some (JStr s))) \<longrightarrow>
          \<not> contactIdEndsWith code a)
   \<and> (\<forall>a\<in>set appts. (\<forall>s. getProp a (str ''contactId'') \<noteq> Inr (Some (JStr s))) \<longrightarrow>
          a \<notin> set (filter (contactIdEndsWith code) appts))"
proof -
  have a: "Array_filter (matchesCode code) (JArr appts) =
     (if JNull \<in> set appts then Inl TypeError
      else Inr (filter (contactIdEndsWith code) appts))"
  proof (cases "JNull \<in> set appts")
    case True
    then show ?thesis by (simp add: filter_throwing_null)
  next
    case False
    then have "\<forall>a\<in>set appts. a \<noteq> JNull" by auto
    with False show ?thesis by (simp add: filter_throwing_matchesCode)
  qed
  have b: "\<not> contactIdEndsWith code a"
    if "\<forall>s. getProp a (str ''contactId'') \<noteq> Inr (Some (JStr s))" for a
    using that by (cases a) (auto simp: contactIdEndsWith_def split: option.splits json.splits)
  from a b show ?thesis by simp
qed

theorem match_step_total_witness:
  "JNull \<notin> set [JObj [], JObj [(str ''contactId'', JNum 1234)], JNum 7, example_appointment JNull]
   \<and> Array_filter (matchesCode (str ''1234''))
       (JArr [JObj [], JObj [(str ''contactId'', JNum 1234)], JNum 7, example_appointment JNull])
     = Inr []"
proof -
  let ?xs = "[JObj [], JObj [(str ''contactId'', JNum 1234)], JNum 7, example_appointment JNull]"
  have h: "JNull \<notin> set ?xs" by (simp add: example_appointment_def)
  have "\<not> contactIdEndsWith (str ''1234'') (example_appointment JNull)"
    by (simp add: contactIdEndsWith_def example_appointment_def endsWith_def str_def)
  moreover have "\<not> contactIdEndsWith (str ''1234'') (JObj [])"
    and "\<not> contactIdEndsWith (str ''1234'') (JObj [(str ''contactId'', JNum 1234)])"
    and "\<not> contactIdEndsWith (str ''1234'') (JNum 7)"
    using match_step_total[of "str ''1234''" ?xs] by simp_all
  ultimately have f: "filter (contactIdEndsWith (str ''1234'')) ?xs = []" by simp
  have "Array_filter (matchesCode (str ''1234'')) (JArr ?xs) = Inr []"
    using match_step_total[of "str ''1234''" ?xs] h f by (simp only: if_False)
  with h show ?thesis by simp
qed

text \<open>
  C9, for a list with a \<open>null\<close> entry: the step throws, also when another entry matches.
\<close>

theorem match_step_null_entry:
  "Array_filter (matchesCode (str ''WZ0e''))
     (JArr [example_appointment (JNum 1704121200000), JNull]) = Inl TypeError"
proof -
  have "JNull \<in> set [example_appointment (JNum 1704121200000), JNull]" by simp
  then show ?thesis unfolding Array_filter.simps by (rule filter_throwing_null)
qed

section \<open>The start time\<close>

text \<open>
  The start time the code reads from a record: an absent field and a string that is no
  date are \<open>NaN\<close>, but \<open>null\<close>, \<open>true\<close> and \<open>false\<close> are converted to the numbers
  0, 1 and 0 by \<open>new Date\<close>.
\<close>

lemma startMs_of_values:
  "startMs_of w (JObj [(str ''startTime'', JNull)]) = Inr (Some 0)"
  "startMs_of w (JObj [(str ''startTime'', JBool b)]) = Inr (Some (if b then 1 else 0))"
  "startMs_of w (JObj []) = Inr None"
  "startMs_of w (JObj [(str ''startTime'', JStr [])]) = Inr None"
  "Date_parse w s = None \<Longrightarrow> startMs_of w (JObj [(str ''startTime'', JStr s)]) = Inr None"
  by (simp_all add: startMs_of_def Date_parse_def)

text \<open>
  C4. A start-time field that is \<open>null\<close> is not answered with the could-not-read
  reason: the single matching appointment of the example, with \<open>startTime: null\<close>,
  evaluated on 2024-01-01 at 16:00 UTC, is taken to start at the epoch, and the answer is
  the window reason with the time \<open>12:00 AM\<close>.
\<close>

theorem null_startTime_is_epoch:
  "fst (validateCode
          (example_world (Some (str ''+00:00'')) 1704124800000 200 (example_appointments JNull) JNull)
          (str ''WZ0e'') st0)
     = Inr (Invalid (str ''Appointment is at 12:00 AM but you are outside the access window (2 hours before '' @
              [0x2192] @ str '' 4 hours after appointment time).''))"
proof -
  let ?W = "example_world (Some (str ''+00:00'')) 1704124800000 200 (example_appointments JNull) JNull"
  have fmt: "code_regex_test (str ''WZ0e'')"
    using example_code by (simp add: code_regex_test_iff list_all_iff)
  have m: "filter (contactIdEndsWith (str ''WZ0e'')) [example_appointment JNull] = [example_appointment JNull]"
    by (simp add: example_match)
  have c: "clock ?W n = 1704124800000" for n by (simp add: example_world_def)
  have z: "APPOINTMENT_TZ ?W = Some (str ''+00:00'')" by (simp add: example_world_def)
  have t: "str ''Appointment is at '' @ str ''12:00 AM'' @
             str '' but you are outside the access window (2 hours before '' =
           str ''Appointment is at 12:00 AM but you are outside the access window (2 hours before ''"
    by (simp add: str_def)
  have "fst (validateCode ?W (str ''WZ0e'') st0) =
          Inr (Invalid (str ''Appointment is at '' @ str ''12:00 AM'' @
                 str '' but you are outside the access window (2 hours before '' @ [0x2192] @
                 str '' 4 hours after appointment time).''))"
    using validateCode_matched[OF fmt example_fetch_pair example_nonnull m startMs_null]
    by (simp add: c z tz_utc format_epoch isWithinWindow_def WINDOW_BEFORE_MS_def
        WINDOW_AFTER_MS_def window_text del: append_assoc add: append_assoc[symmetric])
  then show ?thesis using t by (simp del: append_assoc add: append_assoc[symmetric])
qed

section \<open>The handler\<close>

lemma reasons_differ:
  "str ''Invalid code format. Expected 4 alphanumeric characters.'' \<noteq>
     str ''Internal server error. Please try again.''"
  "str ''No appointment found for today with this code.'' \<noteq>
     str ''Internal server error. Please try again.''"
  "str ''Could not read appointment start time.'' \<noteq>
     str ''Internal server error. Please try again.''"
  "str ''Ambiguous code '' @ x \<noteq> str ''Internal server error. Please try again.''"
  "str ''Appointment is at '' @ y \<noteq> str ''Internal server error. Please try again.''"
  by (simp_all add: str_def)

lemma verdict_not_internal_error:
  "fst (validateCode w' code' st') \<noteq>
     Inr (Invalid (str ''Internal server error. Please try again.''))"
  by (simp add: validateCode_def reasons_differ Date_now_def Let_def
      split: prod.splits sum.splits list.splits option.splits)

lemma method_names: "str ''POST'' \<noteq> str ''OPTIONS''"
  by (simp add: str_def)

lemma validateCode_lookup_error:
  "code_regex_test code \<Longrightarrow> fst (fetchTodaysAppointments w st) = Inl e \<Longrightarrow>
   fst (validateCode w code st) = Inl e"
  by (cases "fetchTodaysAppointments w st") (simp add: validateCode_def)

lemma handler_internal_error:
  assumes "httpMethod ev = str ''POST''" and "requestCode w ev = Inr code" and "code \<noteq> []"
    and "fst (validateCode w code st) = Inl e"
  shows "fst (handler w ev st) =
     \<lparr>statusCode = 500, headers = CORS_HEADERS,
      responseBody = Some (Invalid (str ''Internal server error. Please try again.''))\<rparr>"
  using assms method_names
  by (cases "validateCode w code st") (simp add: handler_def)

lemma example_parseBody:
  "parseBody (example_world tz now sc data rq) example_event = Some rq"
  by (simp add: parseBody_def example_event_def example_world_def str_def)

lemma example_parseBody_unconfigured:
  "parseBody ((example_world tz now sc data rq)\<lparr>GHL_API_KEY := None, GHL_LOCATION_ID := None\<rparr>)
     example_event = Some rq"
  by (simp add: parseBody_def example_event_def example_world_def str_def)

lemma trim_WZ0e: "trim (str ''WZ0e'') = str ''WZ0e''"
  by (simp add: trim_def str_def isWhiteSpace_def)

lemma trim_abc: "trim (str ''abc'') = str ''abc''"
  by (simp add: trim_def str_def isWhiteSpace_def)

lemma requestCode_contactId:
  "parseBody w ev = Some (JObj [(str ''contactId'', JStr s)]) \<Longrightarrow> s \<noteq> [] \<Longrightarrow>
   requestCode w ev = Inr (trim s)"
  by (simp add: requestCode_def)

lemma trim_split:
  "dropWhile isWhiteSpace s =
     trim s @ rev (takeWhile isWhiteSpace (rev (dropWhile isWhiteSpace s)))"
proof -
  let ?d = "dropWhile isWhiteSpace s"
  have "?d = rev (takeWhile isWhiteSpace (rev ?d) @ dropWhile isWhiteSpace (rev ?d))"
    by (simp only: takeWhile_dropWhile_id rev_rev_ident)
  then show ?thesis
    by (simp only: rev_append trim_def)
qed

lemma trim_decomp:
  "\<exists>l r. s = l @ trim s @ r \<and> list_all isWhiteSpace l \<and> list_all isWhiteSpace r"
proof -
  let ?d = "dropWhile isWhiteSpace s"
  have d: "?d = trim s @ rev (takeWhile isWhiteSpace (rev ?d))"
    by (rule trim_split)
  have "s = takeWhile isWhiteSpace s @ ?d" by simp
  with d have "s = takeWhile isWhiteSpace s @ trim s @ rev (takeWhile isWhiteSpace (rev ?d))"
    by simp
  moreover have "list_all isWhiteSpace (takeWhile isWhiteSpace s)"
    by (simp add: list_all_iff) (metis set_takeWhileD)
  moreover have "list_all isWhiteSpace (rev (takeWhile isWhiteSpace (rev ?d)))"
    by (simp add: list_all_iff) (metis set_takeWhileD)
  ultimately show ?thesis by blast
qed

lemma trim_ends:
  assumes "trim s \<noteq> []"
  shows "\<not> isWhiteSpace (hd (trim s)) \<and> \<not> isWhiteSpace (last (trim s))"
proof -
  let ?d = "dropWhile isWhiteSpace s"
  let ?e = "dropWhile isWhiteSpace (rev ?d)"
  have e: "?e \<noteq> []" using assms by (simp add: trim_def)
  then have "\<not> isWhiteSpace (hd ?e)" by (rule hd_dropWhile)
  moreover have "last (trim s) = hd ?e" using e by (simp add: trim_def last_rev)
  ultimately have l: "\<not> isWhiteSpace (last (trim s))" by simp
  have d: "?d = trim s @ rev (takeWhile isWhiteSpace (rev ?d))" by (rule trim_split)
  then have "?d \<noteq> []" using assms by (metis append_is_Nil_conv)
  then have "\<not> isWhiteSpace (hd ?d)" by (rule hd_dropWhile)
  moreover have "hd ?d = hd (trim s)" using assms by (subst d) simp
  ultimately show ?thesis using l by simp
qed

lemma trim_Nil: "trim [] = []" by (simp add: trim_def)

lemma requestCode_primary:
  assumes "parseBody w ev = Some b" "getProp b (str ''contactId'') = Inr (Some (JStr s))" "s \<noteq> []"
  shows "requestCode w ev = Inr (trim s)"
  using assms by (simp add: requestCode_def)

lemma requestCode_fallback:
  assumes "parseBody w ev = Some b" "getProp b (str ''contactId'') = Inr c" "\<not> truthy c"
    and "getProp b (str ''code'') = Inr (Some (JStr s))" "s \<noteq> []"
  shows "requestCode w ev = Inr (trim s)"
  using assms by (simp add: requestCode_def js_or_def)

lemma String_trim_Inr: "String_trim v = Inr x \<Longrightarrow> \<exists>s. v = Some (JStr s) \<and> x = trim s"
  by (cases v rule: String_trim.cases) simp_all

lemma requestCode_source:
  assumes "requestCode w ev = Inr x" "x \<noteq> []"
  shows "\<exists>b c k s. parseBody w ev = Some b \<and> getProp b (str ''contactId'') = Inr c \<and>
           getProp b (str ''code'') = Inr k \<and> (c = Some (JStr s) \<or> k = Some (JStr s)) \<and> trim s \<noteq> []"
proof -
  from assms(1) obtain b where b: "parseBody w ev = Some b"
    by (auto simp: requestCode_def split: option.splits)
  from assms(1) b obtain c where c: "getProp b (str ''contactId'') = Inr c"
    by (auto simp: requestCode_def split: sum.splits)
  then have "b \<noteq> JNull" by auto
  then obtain k where k: "getProp b (str ''code'') = Inr k"
    by (cases b) simp_all
  show ?thesis
  proof (cases "truthy c")
    case True
    with assms(1) b c have "String_trim c = Inr x" by (simp add: requestCode_def)
    then obtain s where "c = Some (JStr s)" "x = trim s" by (auto dest: String_trim_Inr)
    with assms(2) b c k show ?thesis by blast
  next
    case False
    with assms(1) b c k have "String_trim (js_or k (Some (JStr []))) = Inr x"
      by (simp add: requestCode_def)
    then obtain s where s: "js_or k (Some (JStr [])) = Some (JStr s)" "x = trim s"
      by (auto dest: String_trim_Inr)
    with assms(2) have "s \<noteq> []" by (auto simp: trim_Nil)
    with s(1) have "k = Some (JStr s)" by (auto simp: js_or_def split: if_splits)
    with assms(2) s(2) b c k show ?thesis by blast
  qed
qed

lemma handler_rejects:
  assumes "httpMethod ev = str ''POST''" and "\<forall>x. requestCode w ev = Inr x \<longrightarrow> x = []"
  shows "statusCode (fst (handler w ev st)) = 400 \<and> snd (handler w ev st) = st \<and>
         (responseBody (fst (handler w ev st)) = Some (Invalid (str ''contactId is required.'')) \<or>
          responseBody (fst (handler w ev st)) = Some (Invalid (str ''Invalid JSON body.'')))"
  using assms method_names
  by (cases "requestCode w ev") (simp_all add: handler_def)

lemma handler_validates:
  assumes "httpMethod ev = str ''POST''" and "requestCode w ev = Inr x" and "x \<noteq> []"
  shows "handler w ev st =
     (case validateCode w x st of
        (Inr result, st1) \<Rightarrow>
          (\<lparr>statusCode = 200, headers = CORS_HEADERS, responseBody = Some result\<rparr>, st1)
      | (Inl err, st1) \<Rightarrow>
          (\<lparr>statusCode = 500, headers = CORS_HEADERS,
            responseBody = Some (Invalid (str ''Internal server error. Please try again.''))\<rparr>,
           st1\<lparr>console := console st1 @ [err]\<rparr>))"
  using assms method_names by (simp add: handler_def)

lemma trim_padded: "trim (str ''  WZ0e '') = str ''WZ0e''"
  by (simp add: trim_def str_def isWhiteSpace_def)

text \<open>
  C8. For a POST request: the candidate code is the value of \<open>contactId\<close> when that is a
  non-empty string, else the value of \<open>code\<close> when \<open>contactId\<close> is empty (absent, \<open>null\<close>,
  the empty string, 0 or \<open>false\<close>) and \<open>code\<close> is a non-empty string; it is trimmed, that
  is stripped of the white space at both ends and of nothing else; the answer is the one
  of \<open>validateCode\<close> on the trimmed value (status 200 with its verdict, status 500 when
  it fails); and a request in which neither field is a string with a
  non-empty trimmed value is answered with status 400 and a reason, the state unchanged:
  no request is sent and the clock is not read.
\<close>

theorem handler_candidate_code:
  assumes "httpMethod ev = str ''POST''"
  shows "(\<forall>b c k s. parseBody w ev = Some b \<and> getProp b (str ''contactId'') = Inr c \<and>
             getProp b (str ''code'') = Inr k \<and> c = Some (JStr s) \<and> s \<noteq> [] \<longrightarrow>
             requestCode w ev = Inr (trim s))
       \<and> (\<forall>b c k s. parseBody w ev = Some b \<and> getProp b (str ''contactId'') = Inr c \<and>
             getProp b (str ''code'') = Inr k \<and> \<not> truthy c \<and> k = Some (JStr s) \<and> s \<noteq> [] \<longrightarrow>
             requestCode w ev = Inr (trim s))
       \<and> (\<forall>s. \<exists>l r. s = l @ trim s @ r \<and> list_all isWhiteSpace l \<and> list_all isWhiteSpace r \<and>
             (trim s = [] \<or> \<not> isWhiteSpace (hd (trim s)) \<and> \<not> isWhiteSpace (last (trim s))))
       \<and> (\<forall>x result st1. requestCode w ev = Inr x \<and> x \<noteq> [] \<and>
             validateCode w x st = (Inr result, st1) \<longrightarrow>
             handler w ev st =
               (\<lparr>statusCode = 200, headers = CORS_HEADERS, responseBody = Some result\<rparr>, st1))
       \<and> (\<forall>x err st1. requestCode w ev = Inr x \<and> x \<noteq> [] \<and>
             validateCode w x st = (Inl err, st1) \<longrightarrow>
             statusCode (fst (handler w ev st)) = 500)
       \<and> (\<not> (\<exists>b c k s. parseBody w ev = Some b \<and> getProp b (str ''contactId'') = Inr c \<and>
                getProp b (str ''code'') = Inr k \<and> (c = Some (JStr s) \<or> k = Some (JStr s)) \<and>
                trim s \<noteq> []) \<longrightarrow>
             statusCode (fst (handler w ev st)) = 400 \<and> snd (handler w ev st) = st \<and>
             (responseBody (fst (handler w ev st)) = Some (Invalid (str ''contactId is required.'')) \<or>
              responseBody (fst (handler w ev st)) = Some (Invalid (str ''Invalid JSON body.''))))"
proof -
  have a: "\<forall>b c k s. parseBody w ev = Some b \<and> getProp b (str ''contactId'') = Inr c \<and>
             getProp b (str ''code'') = Inr k \<and> c = Some (JStr s) \<and> s \<noteq> [] \<longrightarrow>
             requestCode w ev = Inr (trim s)"
    using requestCode_primary by blast
  have b: "\<forall>b c k s. parseBody w ev = Some b \<and> getProp b (str ''contactId'') = Inr c \<and>
             getProp b (str ''code'') = Inr k \<and> \<not> truthy c \<and> k = Some (JStr s) \<and> s \<noteq> [] \<longrightarrow>
             requestCode w ev = Inr (trim s)"
    using requestCode_fallback by blast
  have c: "\<forall>s. \<exists>l r. s = l @ trim s @ r \<and> list_all isWhiteSpace l \<and> list_all isWhiteSpace r \<and>
             (trim s = [] \<or> \<not> isWhiteSpace (hd (trim s)) \<and> \<not> isWhiteSpace (last (trim s)))"
    using trim_decomp trim_ends by blast
  have d: "\<forall>x result st1. requestCode w ev = Inr x \<and> x \<noteq> [] \<and>
             validateCode w x st = (Inr result, st1) \<longrightarrow>
             handler w ev st =
               (\<lparr>statusCode = 200, headers = CORS_HEADERS, responseBody = Some result\<rparr>, st1)"
    using handler_validates[OF assms] by simp
  have d': "\<forall>x err st1. requestCode w ev = Inr x \<and> x \<noteq> [] \<and>
             validateCode w x st = (Inl err, st1) \<longrightarrow>
             statusCode (fst (handler w ev st)) = 500"
    using handler_validates[OF assms] by simp
  have e: "\<not> (\<exists>b c k s. parseBody w ev = Some b \<and> getProp b (str ''contactId'') = Inr c \<and>
                getProp b (str ''code'') = Inr k \<and> (c = Some (JStr s) \<or> k = Some (JStr s)) \<and>
                trim s \<noteq> []) \<longrightarrow>
             statusCode (fst (handler w ev st)) = 400 \<and> snd (handler w ev st) = st \<and>
             (responseBody (fst (handler w ev st)) = Some (Invalid (str ''contactId is required.'')) \<or>
              responseBody (fst (handler w ev st)) = Some (Invalid (str ''Invalid JSON body.'')))"
  proof
    assume n: "\<not> (\<exists>b c k s. parseBody w ev = Some b \<and> getProp b (str ''contactId'') = Inr c \<and>
                getProp b (str ''code'') = Inr k \<and> (c = Some (JStr s) \<or> k = Some (JStr s)) \<and>
                trim s \<noteq> [])"
    have "\<forall>x. requestCode w ev = Inr x \<longrightarrow> x = []"
      using n requestCode_source[of w ev] by blast
    with assms show "statusCode (fst (handler w ev st)) = 400 \<and> snd (handler w ev st) = st \<and>
             (responseBody (fst (handler w ev st)) = Some (Invalid (str ''contactId is required.'')) \<or>
              responseBody (fst (handler w ev st)) = Some (Invalid (str ''Invalid JSON body.'')))"
      by (rule handler_rejects)
  qed
  from a b c d d' e show ?thesis by (intro conjI)
qed

theorem handler_candidate_code_witness:
  "httpMethod example_event = str ''POST''
   \<and> parseBody
        (example_world (Some (str ''+00:00'')) 1704124800000 200
           (example_appointments (JStr (str ''2024-01-01T15:00:00Z'')))
           (JObj [(str ''contactId'', JStr (str ''  WZ0e '')), (str ''code'', JStr (str ''zzzz''))]))
        example_event
      = Some (JObj [(str ''contactId'', JStr (str ''  WZ0e '')), (str ''code'', JStr (str ''zzzz''))])
   \<and> requestCode
        (example_world (Some (str ''+00:00'')) 1704124800000 200
           (example_appointments (JStr (str ''2024-01-01T15:00:00Z'')))
           (JObj [(str ''contactId'', JStr (str ''  WZ0e '')), (str ''code'', JStr (str ''zzzz''))]))
        example_event
      = Inr (str ''WZ0e'')
   \<and> fst (handler
        (example_world (Some (str ''+00:00'')) 1704124800000 200
           (example_appointments (JStr (str ''2024-01-01T15:00:00Z'')))
           (JObj [(str ''contactId'', JStr (str ''  WZ0e '')), (str ''code'', JStr (str ''zzzz''))]))
        example_event st0)
      = \<lparr>statusCode = 200, headers = CORS_HEADERS, responseBody = Some Valid\<rparr>"
proof -
  let ?rq = "JObj [(str ''contactId'', JStr (str ''  WZ0e '')), (str ''code'', JStr (str ''zzzz''))]"
  let ?A = "example_appointment (JStr (str ''2024-01-01T15:00:00Z''))"
  let ?W = "example_world (Some (str ''+00:00'')) 1704124800000 200
           (example_appointments (JStr (str ''2024-01-01T15:00:00Z''))) ?rq"
  have h: "httpMethod example_event = str ''POST''" by (simp add: example_event_def)
  have b: "parseBody ?W example_event = Some ?rq" by (rule example_parseBody)
  have c: "getProp ?rq (str ''contactId'') = Inr (Some (JStr (str ''  WZ0e '')))" by simp
  have k: "getProp ?rq (str ''code'') = Inr (Some (JStr (str ''zzzz'')))" by (simp add: str_def)
  have ne: "str ''  WZ0e '' \<noteq> []" and ne': "str ''WZ0e'' \<noteq> []" by (simp_all add: str_def)
  note T = handler_candidate_code[OF h, of ?W st0]
  have rc: "requestCode ?W example_event = Inr (str ''WZ0e'')"
    using T b c k ne trim_padded by metis
  have fmt: "code_regex_test (str ''WZ0e'')"
    using example_code by (simp add: code_regex_test_iff list_all_iff)
  have m: "filter (contactIdEndsWith (str ''WZ0e'')) [?A] = [?A]" by (simp add: example_match)
  have cl: "clock ?W n = 1704124800000" for n by (simp add: example_world_def)
  have v: "validateCode ?W (str ''WZ0e'') st0 =
             (Inr Valid, (snd (fetchTodaysAppointments ?W st0))
                \<lparr>ticks := Suc (ticks (snd (fetchTodaysAppointments ?W st0)))\<rparr>)"
    using validateCode_matched[OF fmt example_fetch_pair example_nonnull m example_start]
    by (simp add: cl isWithinWindow_def WINDOW_BEFORE_MS_def WINDOW_AFTER_MS_def)
  have "fst (handler ?W example_event st0) =
          \<lparr>statusCode = 200, headers = CORS_HEADERS, responseBody = Some Valid\<rparr>"
    using T rc ne' v by (metis fst_conv)
  with h b rc show ?thesis by simp
qed

section \<open>Today and the time of day\<close>

lemma parseInt_pair: "isDigit a \<Longrightarrow> isDigit b \<Longrightarrow> parseInt [a, b] = 10 * digitVal a + digitVal b"
  by (simp add: parseInt_def)

lemma tz_match_iff: "tz_match s \<noteq> None \<longleftrightarrow> well_formed_offset s"
  by (induction s rule: tz_match.induct) (simp_all add: well_formed_offset_def)

lemma tz_match_Some:
  "well_formed_offset s \<Longrightarrow> tz_match s = Some ([s ! 0], [s ! 1, s ! 2], [s ! 4, s ! 5])"
  by (induction s rule: tz_match.induct) (simp_all add: well_formed_offset_def)

lemma plus_sign: "str ''+'' = [0x2B]" by (simp add: str_def)

lemma parseTz_wf:
  assumes "well_formed_offset s"
  shows "parseTzOffsetMs (Some s) = offset_value s"
proof -
  have ne: "s \<noteq> []" using assms by (auto simp: well_formed_offset_def)
  have d: "isDigit (s ! 1)" "isDigit (s ! 2)" "isDigit (s ! 4)" "isDigit (s ! 5)"
    using assms by (simp_all add: well_formed_offset_def)
  have p: "parseInt [s ! 1, s ! 2] = 10 * digitVal (s ! 1) + digitVal (s ! 2)"
    "parseInt [s ! 4, s ! 5] = 10 * digitVal (s ! 4) + digitVal (s ! 5)"
    using d by (simp_all only: parseInt_pair)
  have o: "or_default (Some s) (str ''+00:00'') = s" using ne by simp
  show ?thesis
    unfolding parseTzOffsetMs_def o tz_match_Some[OF assms] offset_value_def
    by (simp add: p plus_sign del: One_nat_def)
qed

lemma tz_default: "parseTzOffsetMs None = 0"
  by (simp add: parseTzOffsetMs_def str_def isDigit_def parseInt_def digitVal_def)

lemma parseTz_malformed:
  assumes "\<not> well_formed_offset s"
  shows "parseTzOffsetMs (Some s) = 0"
proof (cases "s = []")
  case True
  then show ?thesis
    by (simp add: parseTzOffsetMs_def str_def isDigit_def parseInt_def digitVal_def)
next
  case False
  moreover have "tz_match s = None" using assms tz_match_iff by blast
  ultimately show ?thesis by (simp add: parseTzOffsetMs_def)
qed

lemma floor_day_clip:
  assumes "\<bar>t\<bar> \<le> (8640000000000000::int)"
  shows "\<bar>t - t mod 86400000\<bar> \<le> 8640000000000000"
proof -
  have m: "0 \<le> t mod 86400000" "t mod 86400000 < 86400000" by simp_all
  have "t - t mod 86400000 = 86400000 * (t div 86400000)"
    by (simp add: minus_mod_eq_mult_div)
  moreover have "- 100000000 \<le> t div 86400000"
  proof -
    have "(- 8640000000000000) div 86400000 \<le> t div 86400000"
      using assms by (intro zdiv_mono1) auto
    then show ?thesis by simp
  qed
  ultimately have "- 8640000000000000 \<le> t - t mod 86400000" by simp
  moreover have "t - t mod 86400000 \<le> 8640000000000000" using m assms by linarith
  ultimately show ?thesis by linarith
qed

lemma fetch_request:
  assumes "GHL_LOCATION_ID w = Some loc" "loc \<noteq> []" "GHL_API_KEY w = Some key" "key \<noteq> []"
  shows "requests (snd (fetchTodaysAppointments w st)) =
     requests st @
     [\<lparr>locationId = loc,
       startDate = NaN_toString (map_option (\<lambda>t. t - parseTzOffsetMs (APPOINTMENT_TZ w))
                     (setUTCHours0 (TimeClip (clock w (ticks st) + parseTzOffsetMs (APPOINTMENT_TZ w))))),
       endDate = NaN_toString (map_option (\<lambda>t. t + 24 * 60 * 60 * 1000 - 1)
                   (map_option (\<lambda>t. t - parseTzOffsetMs (APPOINTMENT_TZ w))
                     (setUTCHours0 (TimeClip (clock w (ticks st) + parseTzOffsetMs (APPOINTMENT_TZ w)))))),
       Authorization = str ''Bearer '' @ key\<rparr>]"
  using assms
  by (simp add: fetchTodaysAppointments_def authHeaders_def Date_now_def Let_def
      split: option.splits sum.splits json.splits)

lemma tz_minus5: "parseTzOffsetMs (Some (str ''-05:00'')) = - 18000000"
  by (simp add: parseTzOffsetMs_def str_def isDigit_def parseInt_def digitVal_def)

lemma bound_strings:
  "Number_toString 1704085200000 = str ''1704085200000''"
  "Number_toString (1704085200000 + 24 * 60 * 60 * 1000 - 1) = str ''1704171599999''"
  by (simp_all add: Number_toString_def digits.simps str_def)

lemma bearer: "str ''Bearer '' @ str ''secret'' = str ''Bearer secret''"
  by (simp add: str_def)













text \<open>
  C6. With both configuration values set, for the reading \<open>now\<close> of the clock and the
  offset \<open>tz\<close> of the configured string (\<open>now + tz\<close> within the range of a Date), the
  lookup sends one request whose \<open>startDate\<close> is the decimal form of \<open>midnight\<close>, the
  start of the local day of \<open>now\<close> as a UTC epoch millisecond, and whose \<open>endDate\<close> is
  \<open>midnight\<close> plus 24 hours minus 1 millisecond; \<open>midnight\<close> is a multiple of a day on
  the local clock and the interval holds \<open>now\<close>. A string of the form \<open>\<plusminus>HH:MM\<close>
  stands for sign times (HH times 60 plus MM) times 60 times 1000 milliseconds; every
  other string, and an unset variable, stand for 0.
\<close>

theorem today_bounds:
  assumes "GHL_LOCATION_ID w = Some loc" and "loc \<noteq> []"
    and "GHL_API_KEY w = Some key" and "key \<noteq> []"
    and "now = clock w (ticks st)" and "tz = parseTzOffsetMs (APPOINTMENT_TZ w)"
    and "\<bar>now + tz\<bar> \<le> 8640000000000000"
    and "midnight = (now + tz) - (now + tz) mod 86400000 - tz"
  shows "requests (snd (fetchTodaysAppointments w st)) =
           requests st @
           [\<lparr>locationId = loc, startDate = Number_toString midnight,
             endDate = Number_toString (midnight + 24 * 60 * 60 * 1000 - 1),
             Authorization = str ''Bearer '' @ key\<rparr>]
       \<and> (midnight + tz) mod 86400000 = 0
       \<and> midnight \<le> now \<and> now \<le> midnight + 24 * 60 * 60 * 1000 - 1
       \<and> (\<forall>s. well_formed_offset s \<longrightarrow> parseTzOffsetMs (Some s) = offset_value s)
       \<and> (\<forall>s. \<not> well_formed_offset s \<longrightarrow> parseTzOffsetMs (Some s) = 0)
       \<and> parseTzOffsetMs None = 0"
proof -
  have clip: "setUTCHours0 (TimeClip (now + tz)) = Some ((now + tz) - (now + tz) mod 86400000)"
    using assms(7) floor_day_clip[OF assms(7)] by (simp add: setUTCHours0_def TimeClip_def)
  have a: "requests (snd (fetchTodaysAppointments w st)) =
           requests st @
           [\<lparr>locationId = loc, startDate = Number_toString midnight,
             endDate = Number_toString (midnight + 24 * 60 * 60 * 1000 - 1),
             Authorization = str ''Bearer '' @ key\<rparr>]"
    using fetch_request[OF assms(1-4), of st] clip assms(5,6,8) by simp
  have b: "(midnight + tz) mod 86400000 = 0"
    using assms(8) by (simp add: minus_mod_eq_mult_div)
  have m: "0 \<le> (now + tz) mod 86400000" "(now + tz) mod 86400000 < 86400000" by simp_all
  have c: "midnight \<le> now \<and> now \<le> midnight + 24 * 60 * 60 * 1000 - 1"
    using assms(8) m by linarith
  from a b c parseTz_wf parseTz_malformed tz_default show ?thesis by blast
qed

theorem today_bounds_witness:
  "parseTzOffsetMs (APPOINTMENT_TZ (example_world (Some (str ''-05:00'')) 1704124800000 200 JNull JNull))
     = - 18000000
   \<and> \<bar>1704124800000 + (- 18000000)\<bar> \<le> (8640000000000000::int)
   \<and> requests (snd (fetchTodaysAppointments
        (example_world (Some (str ''-05:00'')) 1704124800000 200 JNull JNull) st0)) =
       [\<lparr>locationId = str ''S6NWWugmodHfqBSf9GEw'', startDate = str ''1704085200000'',
         endDate = str ''1704171599999'', Authorization = str ''Bearer secret''\<rparr>]"
proof -
  let ?W = "example_world (Some (str ''-05:00'')) 1704124800000 200 JNull JNull"
  have h1: "GHL_LOCATION_ID ?W = Some (str ''S6NWWugmodHfqBSf9GEw'')" by (simp add: example_world_def)
  have h2: "str ''S6NWWugmodHfqBSf9GEw'' \<noteq> []" by (simp add: str_def)
  have h3: "GHL_API_KEY ?W = Some (str ''secret'')" by (simp add: example_world_def)
  have h4: "str ''secret'' \<noteq> []" by (simp add: str_def)
  have h5: "(1704124800000::int) = clock ?W (ticks st0)" by (simp add: example_world_def)
  have z: "APPOINTMENT_TZ ?W = Some (str ''-05:00'')" by (simp add: example_world_def)
  have h6: "(- 18000000::int) = parseTzOffsetMs (APPOINTMENT_TZ ?W)" by (simp add: z tz_minus5)
  have h7: "\<bar>1704124800000 + (- 18000000)\<bar> \<le> (8640000000000000::int)" by simp
  have h8: "(1704085200000::int) =
      (1704124800000 + (- 18000000)) - (1704124800000 + (- 18000000)) mod 86400000 - (- 18000000)"
    by simp
  have r: "requests st0 = []" by (simp add: st0_def)
  from today_bounds[OF h1 h2 h3 h4 h5 h6 h7 h8]
  have "requests (snd (fetchTodaysAppointments ?W st0)) =
       [\<lparr>locationId = str ''S6NWWugmodHfqBSf9GEw'', startDate = str ''1704085200000'',
         endDate = str ''1704171599999'', Authorization = str ''Bearer secret''\<rparr>]"
    by (simp only: r bound_strings bearer append_Nil)
  with h6 h7 show ?thesis by simp
qed



section \<open>The answer of the service\<close>

lemma fetch_sent:
  assumes "GHL_LOCATION_ID w = Some loc" "loc \<noteq> []" "GHL_API_KEY w = Some key" "key \<noteq> []"
    and "requests (snd (fetchTodaysAppointments w st)) = requests st @ [req]"
  shows "fst (fetchTodaysAppointments w st) =
     (case upstream w req of
        None \<Rightarrow> Inl TypeError
      | Some response \<Rightarrow>
          if \<not> ok response
          then Inl (Error (str ''GHL appointments API returned '' @
                 Number_toString (int (status response)) @ str '': '' @ responseText response))
          else (case JSON_parse w (responseText response) of
                  None \<Rightarrow> Inl SyntaxError
                | Some data \<Rightarrow>
                    (case getProp data (str ''appointments'') of
                       Inl e \<Rightarrow> Inl e
                     | Inr None \<Rightarrow> Inr (JArr [])
                     | Inr (Some JNull) \<Rightarrow> Inr (JArr [])
                     | Inr (Some v) \<Rightarrow> Inr v)))"
proof -
  let ?req = "\<lparr>locationId = loc,
       startDate = NaN_toString (map_option (\<lambda>t. t - parseTzOffsetMs (APPOINTMENT_TZ w))
                     (setUTCHours0 (TimeClip (clock w (ticks st) + parseTzOffsetMs (APPOINTMENT_TZ w))))),
       endDate = NaN_toString (map_option (\<lambda>t. t + 24 * 60 * 60 * 1000 - 1)
                   (map_option (\<lambda>t. t - parseTzOffsetMs (APPOINTMENT_TZ w))
                     (setUTCHours0 (TimeClip (clock w (ticks st) + parseTzOffsetMs (APPOINTMENT_TZ w)))))),
       Authorization = str ''Bearer '' @ key\<rparr>"
  have "requests st @ [req] = requests st @ [?req]"
    using fetch_request[OF assms(1-4), of st] assms(5) by simp
  then have r: "?req = req" by simp
  have "fst (fetchTodaysAppointments w st) =
     (case upstream w ?req of
        None \<Rightarrow> Inl TypeError
      | Some response \<Rightarrow>
          if \<not> ok response
          then Inl (Error (str ''GHL appointments API returned '' @
                 Number_toString (int (status response)) @ str '': '' @ responseText response))
          else (case JSON_parse w (responseText response) of
                  None \<Rightarrow> Inl SyntaxError
                | Some data \<Rightarrow>
                    (case getProp data (str ''appointments'') of
                       Inl e \<Rightarrow> Inl e
                     | Inr None \<Rightarrow> Inr (JArr [])
                     | Inr (Some JNull) \<Rightarrow> Inr (JArr [])
                     | Inr (Some v) \<Rightarrow> Inr v)))"
    using assms(1-4)
    by (simp add: fetchTodaysAppointments_def authHeaders_def Date_now_def Let_def
        split: option.splits sum.splits json.splits)
  then show ?thesis unfolding r .
qed

lemma example_world_sent:
  "\<exists>req. requests (snd (fetchTodaysAppointments (example_world tz now answer data rq) st)) =
          requests st @ [req]"
proof -
  have "GHL_LOCATION_ID (example_world tz now answer data rq) = Some (str ''S6NWWugmodHfqBSf9GEw'')"
    and "str ''S6NWWugmodHfqBSf9GEw'' \<noteq> []"
    and "GHL_API_KEY (example_world tz now answer data rq) = Some (str ''secret'')"
    and "str ''secret'' \<noteq> []"
    by (simp_all add: example_world_def str_def)
  from fetch_request[OF this, of st] show ?thesis by blast
qed

lemma example_fetch_null:
  "fst (fetchTodaysAppointments (example_world tz now 200 JNull rq) st) = Inl TypeError"
proof -
  let ?W = "example_world tz now 200 JNull rq"
  obtain req where s: "requests (snd (fetchTodaysAppointments ?W st)) = requests st @ [req]"
    using example_world_sent by blast
  have c: "GHL_LOCATION_ID ?W = Some (str ''S6NWWugmodHfqBSf9GEw'')"
    "str ''S6NWWugmodHfqBSf9GEw'' \<noteq> []"
    "GHL_API_KEY ?W = Some (str ''secret'')" "str ''secret'' \<noteq> []"
    by (simp_all add: example_world_def str_def)
  have u: "upstream ?W req = Some \<lparr>status = 200, responseText = str ''upstream body''\<rparr>"
    and p: "JSON_parse ?W (str ''upstream body'') = Some JNull"
    by (simp_all add: example_world_def)
  show ?thesis
    using fetch_sent[OF c s] by (simp add: u p ok_def)
qed

lemma fetch_fails_sent:
  assumes "GHL_LOCATION_ID w = None \<or> GHL_LOCATION_ID w = Some [] \<or>
           GHL_API_KEY w = None \<or> GHL_API_KEY w = Some [] \<or>
           (\<exists>req. requests (snd (fetchTodaysAppointments w st)) = requests st @ [req] \<and>
                  (\<forall>r. upstream w req = Some r \<longrightarrow> \<not> ok r))"
  shows "\<exists>e. fst (fetchTodaysAppointments w st) = Inl e"
proof (cases "or_default (GHL_LOCATION_ID w) [] = []")
  case True
  then show ?thesis by (simp add: fetchTodaysAppointments_def)
next
  case loc: False
  show ?thesis
  proof (cases "or_default (GHL_API_KEY w) [] = []")
    case True
    with loc show ?thesis
      by (simp add: fetchTodaysAppointments_def authHeaders_def Date_now_def Let_def)
  next
    case key: False
    obtain l where l: "GHL_LOCATION_ID w = Some l" "l \<noteq> []"
      using loc by (cases "GHL_LOCATION_ID w") (auto split: if_splits)
    obtain k where k: "GHL_API_KEY w = Some k" "k \<noteq> []"
      using key by (cases "GHL_API_KEY w") (auto split: if_splits)
    from l k assms obtain req where
      s: "requests (snd (fetchTodaysAppointments w st)) = requests st @ [req]"
      and u: "\<forall>r. upstream w req = Some r \<longrightarrow> \<not> ok r"
      by auto
    show ?thesis
      using fetch_sent[OF l k s] u by (cases "upstream w req") auto
  qed
qed

text \<open>
  C10. Let both configuration values be set and let the service answer the request that
  the lookup sends with a success status and a body that parses to \<open>data\<close>. If the
  \<open>appointments\<close> property of \<open>data\<close> is absent or \<open>null\<close> (so \<open>data\<close> is not itself
  \<open>null\<close>), the lookup returns the empty list and every well-formed code is answered
  with the no-appointment reason. If \<open>data\<close> is \<open>null\<close>, the lookup throws a
  TypeError, and so does \<open>validateCode\<close>.
\<close>

theorem missing_list_is_empty:
  assumes "GHL_LOCATION_ID w = Some loc" and "loc \<noteq> []"
    and "GHL_API_KEY w = Some key" and "key \<noteq> []"
    and "requests (snd (fetchTodaysAppointments w st)) = requests st @ [req]"
    and "upstream w req = Some r" and "200 \<le> status r \<and> status r \<le> 299"
    and "JSON_parse w (responseText r) = Some data"
    and "length code = 4" and "\<forall>c\<in>set code. isAlnum c"
  shows "(getProp data (str ''appointments'') = Inr None \<or>
          getProp data (str ''appointments'') = Inr (Some JNull) \<longrightarrow>
            fst (fetchTodaysAppointments w st) = Inr (JArr []) \<and>
            fst (validateCode w code st) =
              Inr (Invalid (str ''No appointment found for today with this code.'')))
       \<and> (data = JNull \<longrightarrow>
            fst (fetchTodaysAppointments w st) = Inl TypeError \<and>
            fst (validateCode w code st) = Inl TypeError)"
proof -
  have okr: "ok r" using assms(7) by (simp add: ok_def)
  have fmt: "code_regex_test code"
    using assms(9,10) by (simp add: code_regex_test_iff list_all_iff)
  have f: "fst (fetchTodaysAppointments w st) =
             (case getProp data (str ''appointments'') of
                Inl e \<Rightarrow> Inl e
              | Inr None \<Rightarrow> Inr (JArr [])
              | Inr (Some JNull) \<Rightarrow> Inr (JArr [])
              | Inr (Some v) \<Rightarrow> Inr v)"
    using fetch_sent[OF assms(1-5)] assms(6,8) okr by simp
  have a: "fst (fetchTodaysAppointments w st) = Inr (JArr []) \<and>
           fst (validateCode w code st) =
              Inr (Invalid (str ''No appointment found for today with this code.''))"
    if g: "getProp data (str ''appointments'') = Inr None \<or>
           getProp data (str ''appointments'') = Inr (Some JNull)"
  proof -
    from g f have e: "fst (fetchTodaysAppointments w st) = Inr (JArr [])" by auto
    have "validateCode w code st =
          (Inr (Invalid (str ''No appointment found for today with this code.'')),
           snd (fetchTodaysAppointments w st))"
      using validateCode_lookup[OF fmt pair_of_fst[OF e]] by simp
    with e show ?thesis by simp
  qed
  have b: "fst (fetchTodaysAppointments w st) = Inl TypeError \<and>
           fst (validateCode w code st) = Inl TypeError"
    if n: "data = JNull"
  proof -
    from n f have e: "fst (fetchTodaysAppointments w st) = Inl TypeError" by simp
    with fmt have "fst (validateCode w code st) = Inl TypeError"
      by (rule validateCode_lookup_error)
    with e show ?thesis by simp
  qed
  from a b show ?thesis by blast
qed

theorem missing_list_is_empty_witness:
  "getProp (JObj [(str ''total'', JNum 0)]) (str ''appointments'') = Inr None
   \<and> fst (fetchTodaysAppointments
            (example_world None 1704124800000 200 (JObj [(str ''total'', JNum 0)]) JNull) st0)
       = Inr (JArr [])
   \<and> fst (validateCode
            (example_world None 1704124800000 200 (JObj [(str ''total'', JNum 0)]) JNull)
            (str ''WZ0e'') st0)
       = Inr (Invalid (str ''No appointment found for today with this code.''))"
proof -
  let ?W = "example_world None 1704124800000 200 (JObj [(str ''total'', JNum 0)]) JNull"
  let ?r = "\<lparr>status = 200, responseText = str ''upstream body''\<rparr>"
  obtain req where h5: "requests (snd (fetchTodaysAppointments ?W st0)) = requests st0 @ [req]"
    using example_world_sent by blast
  have h1: "GHL_LOCATION_ID ?W = Some (str ''S6NWWugmodHfqBSf9GEw'')" by (simp add: example_world_def)
  have h2: "str ''S6NWWugmodHfqBSf9GEw'' \<noteq> []" by (simp add: str_def)
  have h3: "GHL_API_KEY ?W = Some (str ''secret'')" by (simp add: example_world_def)
  have h4: "str ''secret'' \<noteq> []" by (simp add: str_def)
  have h6: "upstream ?W req = Some ?r" by (simp add: example_world_def)
  have h7: "200 \<le> status ?r \<and> status ?r \<le> 299" by simp
  have h8: "JSON_parse ?W (responseText ?r) = Some (JObj [(str ''total'', JNum 0)])"
    by (simp add: example_world_def)
  have g: "getProp (JObj [(str ''total'', JNum 0)]) (str ''appointments'') = Inr None"
    by (simp add: str_def)
  have h9: "length (str ''WZ0e'') = 4" and h10: "\<forall>c\<in>set (str ''WZ0e''). isAlnum c"
    using example_code by simp_all
  from missing_list_is_empty[OF h1 h2 h3 h4 h5 h6 h7 h8 h9 h10] g
  show ?thesis by simp
qed

text \<open>
  C10, for the body \<open>null\<close>: the service answers with status 200 and a body that parses
  to \<open>null\<close>; the lookup fails with a TypeError instead of returning the empty list.
\<close>

theorem null_body_is_lookup_failure:
  "fst (fetchTodaysAppointments (example_world None 1704124800000 200 JNull JNull) st0)
     = Inl TypeError
   \<and> fst (validateCode (example_world None 1704124800000 200 JNull JNull) (str ''WZ0e'') st0)
     = Inl TypeError"
proof -
  have fmt: "code_regex_test (str ''WZ0e'')"
    using example_code by (simp add: code_regex_test_iff list_all_iff)
  from validateCode_lookup_error[OF fmt example_fetch_null] example_fetch_null
  show ?thesis by simp
qed

text \<open>
  C5, as the code has it. For a POST request whose code reaches the lookup (the trimmed
  code is four alphanumeric characters): when the location identifier or the credential is
  unset or empty, or the answer to the request that the lookup sends has a status outside
  200..299 (or there is no answer), the response is the fixed internal-error response with
  status 500. It is the same whatever the upstream status and body are, and its reason is
  none that \<open>validateCode\<close> gives. A request that is answered before the lookup gets its
  own answer and leaves the state unchanged, whatever the configuration is: OPTIONS gets
  204 with an empty body, any other method than POST gets 405, a POST whose body yields no
  code gets 400 with \<open>Invalid JSON body.\<close> or \<open>contactId is required.\<close>, and a POST
  with a malformed code gets 200 with the format verdict.
\<close>

theorem lookup_failure_is_internal_error:
  "(httpMethod ev = str ''POST'' \<and> requestCode w ev = Inr code \<and>
    length code = 4 \<and> (\<forall>c\<in>set code. isAlnum c) \<and>
    (GHL_LOCATION_ID w = None \<or> GHL_LOCATION_ID w = Some [] \<or>
     GHL_API_KEY w = None \<or> GHL_API_KEY w = Some [] \<or>
     (\<exists>req. requests (snd (fetchTodaysAppointments w st)) = requests st @ [req] \<and>
            (\<forall>r. upstream w req = Some r \<longrightarrow> \<not> (200 \<le> status r \<and> status r \<le> 299)))) \<longrightarrow>
      fst (handler w ev st) =
        \<lparr>statusCode = 500, headers = CORS_HEADERS,
         responseBody = Some (Invalid (str ''Internal server error. Please try again.''))\<rparr>)
   \<and> (\<forall>w' code' st'. fst (validateCode w' code' st') \<noteq>
         Inr (Invalid (str ''Internal server error. Please try again.'')))
   \<and> (httpMethod ev = str ''OPTIONS'' \<longrightarrow>
         handler w ev st =
           (\<lparr>statusCode = 204, headers = CORS_HEADERS, responseBody = None\<rparr>, st))
   \<and> (httpMethod ev \<noteq> str ''OPTIONS'' \<and> httpMethod ev \<noteq> str ''POST'' \<longrightarrow>
         handler w ev st =
           (\<lparr>statusCode = 405, headers = CORS_HEADERS,
             responseBody = Some (Invalid (str ''Method not allowed.''))\<rparr>, st))
   \<and> (httpMethod ev = str ''POST'' \<and> (\<exists>e. requestCode w ev = Inl e) \<longrightarrow>
         handler w ev st =
           (\<lparr>statusCode = 400, headers = CORS_HEADERS,
             responseBody = Some (Invalid (str ''Invalid JSON body.''))\<rparr>, st))
   \<and> (httpMethod ev = str ''POST'' \<and> requestCode w ev = Inr [] \<longrightarrow>
         handler w ev st =
           (\<lparr>statusCode = 400, headers = CORS_HEADERS,
             responseBody = Some (Invalid (str ''contactId is required.''))\<rparr>, st))
   \<and> (httpMethod ev = str ''POST'' \<and> requestCode w ev = Inr code \<and> code \<noteq> [] \<and>
       \<not> (length code = 4 \<and> (\<forall>c\<in>set code. isAlnum c)) \<longrightarrow>
         handler w ev st =
           (\<lparr>statusCode = 200, headers = CORS_HEADERS,
             responseBody = Some (Invalid (str ''Invalid code format. Expected 4 alphanumeric characters.''))\<rparr>,
            st))"
proof -
  have a: "fst (handler w ev st) =
        \<lparr>statusCode = 500, headers = CORS_HEADERS,
         responseBody = Some (Invalid (str ''Internal server error. Please try again.''))\<rparr>"
    if m: "httpMethod ev = str ''POST''" and rc: "requestCode w ev = Inr code"
      and len: "length code = 4" and al: "\<forall>c\<in>set code. isAlnum c"
      and fail: "GHL_LOCATION_ID w = None \<or> GHL_LOCATION_ID w = Some [] \<or>
         GHL_API_KEY w = None \<or> GHL_API_KEY w = Some [] \<or>
         (\<exists>req. requests (snd (fetchTodaysAppointments w st)) = requests st @ [req] \<and>
            (\<forall>r. upstream w req = Some r \<longrightarrow> \<not> (200 \<le> status r \<and> status r \<le> 299)))"
  proof -
    have fmt: "code_regex_test code"
      using len al by (simp add: code_regex_test_iff list_all_iff)
    have ne: "code \<noteq> []" using len by auto
    obtain e where "fst (fetchTodaysAppointments w st) = Inl e"
      using fetch_fails_sent[of w st] fail unfolding ok_def by blast
    then have "fst (validateCode w code st) = Inl e"
      using fmt by (rule validateCode_lookup_error[rotated])
    with m rc ne show ?thesis by (rule handler_internal_error)
  qed
  have c: "httpMethod ev = str ''OPTIONS'' \<longrightarrow>
         handler w ev st =
           (\<lparr>statusCode = 204, headers = CORS_HEADERS, responseBody = None\<rparr>, st)"
    by (simp add: handler_def)
  have d: "httpMethod ev \<noteq> str ''OPTIONS'' \<and> httpMethod ev \<noteq> str ''POST'' \<longrightarrow>
         handler w ev st =
           (\<lparr>statusCode = 405, headers = CORS_HEADERS,
             responseBody = Some (Invalid (str ''Method not allowed.''))\<rparr>, st)"
    by (simp add: handler_def)
  have e: "httpMethod ev = str ''POST'' \<and> (\<exists>e. requestCode w ev = Inl e) \<longrightarrow>
         handler w ev st =
           (\<lparr>statusCode = 400, headers = CORS_HEADERS,
             responseBody = Some (Invalid (str ''Invalid JSON body.''))\<rparr>, st)"
    using method_names by (auto simp: handler_def)
  have f: "httpMethod ev = str ''POST'' \<and> requestCode w ev = Inr [] \<longrightarrow>
         handler w ev st =
           (\<lparr>statusCode = 400, headers = CORS_HEADERS,
             responseBody = Some (Invalid (str ''contactId is required.''))\<rparr>, st)"
    using method_names by (simp add: handler_def)
  have g: "httpMethod ev = str ''POST'' \<and> requestCode w ev = Inr code \<and> code \<noteq> [] \<and>
       \<not> (length code = 4 \<and> (\<forall>c\<in>set code. isAlnum c)) \<longrightarrow>
         handler w ev st =
           (\<lparr>statusCode = 200, headers = CORS_HEADERS,
             responseBody = Some (Invalid (str ''Invalid code format. Expected 4 alphanumeric characters.''))\<rparr>,
            st)"
  proof (intro impI, elim conjE)
    assume m: "httpMethod ev = str ''POST''" and rc: "requestCode w ev = Inr code"
      and ne: "code \<noteq> []" and bad: "\<not> (length code = 4 \<and> (\<forall>c\<in>set code. isAlnum c))"
    have "\<not> code_regex_test code"
      using bad by (simp add: code_regex_test_iff list_all_iff)
    with m rc ne method_names show "handler w ev st =
           (\<lparr>statusCode = 200, headers = CORS_HEADERS,
             responseBody = Some (Invalid (str ''Invalid code format. Expected 4 alphanumeric characters.''))\<rparr>,
            st)"
      by (simp add: handler_def validateCode_def)
  qed
  from a have a': "(httpMethod ev = str ''POST'' \<and> requestCode w ev = Inr code \<and>
    length code = 4 \<and> (\<forall>c\<in>set code. isAlnum c) \<and>
    (GHL_LOCATION_ID w = None \<or> GHL_LOCATION_ID w = Some [] \<or>
     GHL_API_KEY w = None \<or> GHL_API_KEY w = Some [] \<or>
     (\<exists>req. requests (snd (fetchTodaysAppointments w st)) = requests st @ [req] \<and>
            (\<forall>r. upstream w req = Some r \<longrightarrow> \<not> (200 \<le> status r \<and> status r \<le> 299)))) \<longrightarrow>
      fst (handler w ev st) =
        \<lparr>statusCode = 500, headers = CORS_HEADERS,
         responseBody = Some (Invalid (str ''Internal server error. Please try again.''))\<rparr>)"
    by blast
  from a' verdict_not_internal_error c d e f g show ?thesis by (intro conjI allI)
qed

theorem lookup_failure_is_internal_error_witness:
  "httpMethod example_event = str ''POST''
   \<and> requestCode (example_world None 1704124800000 500 JNull (JObj [(str ''contactId'', JStr (str ''WZ0e''))]))
        example_event = Inr (str ''WZ0e'')
   \<and> length (str ''WZ0e'') = 4 \<and> list_all isAlnum (str ''WZ0e'')
   \<and> upstream (example_world None 1704124800000 500 JNull (JObj [(str ''contactId'', JStr (str ''WZ0e''))]))
        = (\<lambda>req. Some \<lparr>status = 500, responseText = str ''upstream body''\<rparr>)
   \<and> fst (handler (example_world None 1704124800000 500 JNull (JObj [(str ''contactId'', JStr (str ''WZ0e''))]))
        example_event st0) =
     \<lparr>statusCode = 500, headers = CORS_HEADERS,
      responseBody = Some (Invalid (str ''Internal server error. Please try again.''))\<rparr>"
proof -
  let ?W = "example_world None 1704124800000 500 JNull (JObj [(str ''contactId'', JStr (str ''WZ0e''))])"
  have h1: "httpMethod example_event = str ''POST''" by (simp add: example_event_def)
  have ne: "str ''WZ0e'' \<noteq> []" by (simp add: str_def)
  have h2: "requestCode ?W example_event = Inr (str ''WZ0e'')"
    using requestCode_contactId[OF example_parseBody ne] by (simp add: trim_WZ0e)
  have h3: "length (str ''WZ0e'') = 4" and h4: "\<forall>c\<in>set (str ''WZ0e''). isAlnum c"
    using example_code by simp_all
  have u: "upstream ?W = (\<lambda>req. Some \<lparr>status = 500, responseText = str ''upstream body''\<rparr>)"
    by (simp add: example_world_def)
  obtain req where s: "requests (snd (fetchTodaysAppointments ?W st0)) = requests st0 @ [req]"
    using example_world_sent by blast
  have "\<forall>r. upstream ?W req = Some r \<longrightarrow> \<not> (200 \<le> status r \<and> status r \<le> 299)"
    by (auto simp: u)
  with s have h5: "GHL_LOCATION_ID ?W = None \<or> GHL_LOCATION_ID ?W = Some [] \<or>
     GHL_API_KEY ?W = None \<or> GHL_API_KEY ?W = Some [] \<or>
     (\<exists>req. requests (snd (fetchTodaysAppointments ?W st0)) = requests st0 @ [req] \<and>
            (\<forall>r. upstream ?W req = Some r \<longrightarrow> \<not> (200 \<le> status r \<and> status r \<le> 299)))"
    by blast
  have "fst (handler ?W example_event st0) =
     \<lparr>statusCode = 500, headers = CORS_HEADERS,
      responseBody = Some (Invalid (str ''Internal server error. Please try again.''))\<rparr>"
    using lookup_failure_is_internal_error[of example_event ?W "str ''WZ0e''" st0] h1 h2 h3 h4 h5
    by blast
  with h1 h2 h3 h4 u show ?thesis by (simp add: list_all_iff)
qed

text \<open>
  C5, for a request that is answered before the lookup: with both configuration values
  unset, a POST with the code \<open>abc\<close> gets status 200 and the format verdict, not the
  internal error, since the format guard comes first and the configuration is only read by
  the lookup.
\<close>

theorem missing_configuration_format_verdict:
  "GHL_API_KEY ((example_world None 1704124800000 200 JNull (JObj [(str ''contactId'', JStr (str ''abc''))]))
       \<lparr>GHL_API_KEY := None, GHL_LOCATION_ID := None\<rparr>) = None
   \<and> GHL_LOCATION_ID ((example_world None 1704124800000 200 JNull (JObj [(str ''contactId'', JStr (str ''abc''))]))
       \<lparr>GHL_API_KEY := None, GHL_LOCATION_ID := None\<rparr>) = None
   \<and> handler ((example_world None 1704124800000 200 JNull (JObj [(str ''contactId'', JStr (str ''abc''))]))
       \<lparr>GHL_API_KEY := None, GHL_LOCATION_ID := None\<rparr>) example_event st0 =
     (\<lparr>statusCode = 200, headers = CORS_HEADERS,
       responseBody = Some (Invalid (str ''Invalid code format. Expected 4 alphanumeric characters.''))\<rparr>,
      st0)"
proof -
  let ?W = "(example_world None 1704124800000 200 JNull (JObj [(str ''contactId'', JStr (str ''abc''))]))
       \<lparr>GHL_API_KEY := None, GHL_LOCATION_ID := None\<rparr>"
  have ne: "str ''abc'' \<noteq> []" by (simp add: str_def)
  have rc: "requestCode ?W example_event = Inr (str ''abc'')"
    using requestCode_contactId[OF example_parseBody_unconfigured ne] by (simp add: trim_abc)
  have bad: "\<not> code_regex_test (str ''abc'')" by (simp add: str_def)
  have m: "httpMethod example_event = str ''POST''" by (simp add: example_event_def)
  have "handler ?W example_event st0 =
     (\<lparr>statusCode = 200, headers = CORS_HEADERS,
       responseBody = Some (Invalid (str ''Invalid code format. Expected 4 alphanumeric characters.''))\<rparr>,
      st0)"
    using rc bad m ne method_names by (simp add: handler_def validateCode_def)
  then show ?thesis by (simp add: example_world_def)
qed

end
